theory Spec2Isabelle
  imports Complex_Main
begin

section \<open>Data model\<close>

text \<open>
  The storefront back-end keeps its documents in MongoDB collections through Mongoose.
  A collection is modelled as the list of its documents, a document as a record of the
  fields the handlers read or write. An \<open>ObjectId\<close> is compared through its string form
  (\<open>toString()\<close>), so it is a string here; the database keeps the ids of a collection
  unique, and a property that depends on it assumes \<open>distinct\<close> ids. JavaScript's
  \<open>Number\<close> is modelled exactly: quantities and stock levels, which the request
  validators restrict to integers, are \<open>int\<close>; prices, rates and money amounts are
  \<open>real\<close>, so the rounding of IEEE doubles is not part of the model. A \<open>Date\<close> is its
  number of milliseconds since the epoch; \<open>new Date()\<close> is the clock reading the caller
  passes in. A handler runs from its request to its answer without another request in
  between, and a handler that writes returns its answer together with the database after it.
\<close>

type_synonym objectId = string
type_synonym date = int

subsection \<open>Values of a request body\<close>

text \<open>
  The validators of the routes check a field but do not convert it, so a field that is
  checked as a number can still be a string when the handler reads it, and a field that
  has no validator can be any value. A string of a request whose characters matter is
  the list of its UTF-16 code units; \<open>ascii\<close> writes such a string from its ASCII text.
  White space is what \<open>trim()\<close>, the regular expression \<open>\s\<close> and the reading of a
  string as a number skip: tab, line feed, vertical tab, form feed, carriage return,
  space, no-break space, U+1680, U+2000 to U+200A, U+2028, U+2029, U+202F, U+205F,
  U+3000 and U+FEFF.
\<close>

type_synonym jsString = "nat list"

definition ascii :: "string \<Rightarrow> jsString" where
  "ascii s = map of_char s"

definition is_space :: "nat \<Rightarrow> bool" where
  "is_space c \<longleftrightarrow>
     c \<in> {9, 10, 11, 12, 13, 32, 160, 5760, 8232, 8233, 8239, 8287, 12288, 65279} \<or>
     (8192 \<le> c \<and> c \<le> 8202)"

definition trim :: "jsString \<Rightarrow> jsString" where
  "trim s = rev (dropWhile is_space (rev (dropWhile is_space s)))"

text \<open>The validator chain \<open>trim().notEmpty()\<close>: the trimmed string has a character.\<close>

definition notEmpty :: "jsString \<Rightarrow> bool" where
  "notEmpty s \<longleftrightarrow> trim s \<noteq> []"

text \<open>
  A value of a field that the handler uses in arithmetic: a number, the number that is
  not a number (\<open>NaN\<close>), or a string. Numbers are the finite ones; \<open>null\<close>, booleans,
  arrays and objects are not represented.
\<close>

datatype jsValue = JNumber real | JNaN | JString jsString

text \<open>
  Reading a string as a number (\<open>Number(s)\<close>, and what \<open>*\<close>, \<open>-\<close> and a comparison do to
  a string operand): white space around the literal is skipped, the empty string is 0,
  and the literal is a signed decimal with an optional fraction and exponent, or an
  unsigned hexadecimal, octal or binary integer with its prefix. \<open>None\<close> stands for
  \<open>NaN\<close>. The literal \<open>Infinity\<close> has no finite value and is read as \<open>None\<close> here.
\<close>

definition is_digit :: "nat \<Rightarrow> bool" where
  "is_digit c \<longleftrightarrow> 48 \<le> c \<and> c \<le> 57"

definition digit_value :: "nat \<Rightarrow> nat option" where
  "digit_value c =
     (if 48 \<le> c \<and> c \<le> 57 then Some (c - 48)
      else if 97 \<le> c \<and> c \<le> 102 then Some (c - 87)
      else if 65 \<le> c \<and> c \<le> 70 then Some (c - 55)
      else None)"

fun read_digits :: "nat \<Rightarrow> nat \<Rightarrow> jsString \<Rightarrow> nat option" where
  "read_digits b acc [] = Some acc"
| "read_digits b acc (c # cs) =
     (case digit_value c of
        None \<Rightarrow> None
      | Some v \<Rightarrow> if v < b then read_digits b (acc * b + v) cs else None)"

definition digits_value :: "nat \<Rightarrow> jsString \<Rightarrow> nat option" where
  "digits_value b cs = (if cs = [] then None else read_digits b 0 cs)"

definition scale10 :: "real \<Rightarrow> int \<Rightarrow> real" where
  "scale10 x e = (if 0 \<le> e then x * 10 ^ nat e else x / 10 ^ nat (- e))"

definition exponent_value :: "jsString \<Rightarrow> int option" where
  "exponent_value r =
     (case r of
        [] \<Rightarrow> Some 0
      | c # cs \<Rightarrow>
          if c = 101 \<or> c = 69
          then (case cs of
                  [] \<Rightarrow> None
                | s # ds \<Rightarrow>
                    if s = 45 then map_option (\<lambda>n. - int n) (digits_value 10 ds)
                    else if s = 43 then map_option int (digits_value 10 ds)
                    else map_option int (digits_value 10 cs))
          else None)"

definition unsigned_decimal :: "jsString \<Rightarrow> real option" where
  "unsigned_decimal r =
     (let ip = takeWhile is_digit r;
          r1 = dropWhile is_digit r;
          fp = (case r1 of [] \<Rightarrow> [] | c # cs \<Rightarrow> if c = 46 then takeWhile is_digit cs else []);
          r2 = (case r1 of [] \<Rightarrow> [] | c # cs \<Rightarrow> if c = 46 then dropWhile is_digit cs else r1)
      in if ip = [] \<and> fp = [] then None
         else
           (case exponent_value r2 of
              None \<Rightarrow> None
            | Some e \<Rightarrow>
                Some (scale10
                  (real (case digits_value 10 ip of None \<Rightarrow> 0 | Some n \<Rightarrow> n) +
                   real (case digits_value 10 fp of None \<Rightarrow> 0 | Some n \<Rightarrow> n) / 10 ^ length fp)
                  e)))"

definition string_to_number :: "jsString \<Rightarrow> real option" where
  "string_to_number s =
     (case trim s of
        [] \<Rightarrow> Some 0
      | c # cs \<Rightarrow>
          if c = 45 then map_option uminus (unsigned_decimal cs)
          else if c = 43 then unsigned_decimal cs
          else if c = 48 \<and> cs \<noteq> [] \<and> hd cs \<in> {120, 88}
          then map_option real (digits_value 16 (tl cs))
          else if c = 48 \<and> cs \<noteq> [] \<and> hd cs \<in> {111, 79}
          then map_option real (digits_value 8 (tl cs))
          else if c = 48 \<and> cs \<noteq> [] \<and> hd cs \<in> {98, 66}
          then map_option real (digits_value 2 (tl cs))
          else unsigned_decimal (c # cs))"

text \<open>
  Writing a number as a string (\<open>String(x)\<close>, and what \<open>+\<close> does to a number when the
  other operand is a string): the decimal digits of the integer part, and for a number
  that is not an integer a point and the digits of the fraction. The numbers of the
  model are exact, so the digits are those of the number itself, up to twenty places.
  The language writes a number of size \<open>10^21\<close> or more, or below \<open>10^-6\<close>, with an
  exponent; such numbers are not written here.
\<close>

function digits_of :: "nat \<Rightarrow> jsString" where
  "digits_of n = (if n < 10 then [48 + n] else digits_of (n div 10) @ [48 + n mod 10])"
  by pat_completeness auto
termination
  by (relation "measure id") auto

declare digits_of.simps [simp del]

fun fraction_digits :: "nat \<Rightarrow> real \<Rightarrow> jsString" where
  "fraction_digits 0 x = []"
| "fraction_digits (Suc k) x =
     (if x = 0 then []
      else (48 + nat \<lfloor>x * 10\<rfloor>) # fraction_digits k (frac (x * 10)))"

definition number_to_string :: "real \<Rightarrow> jsString" where
  "number_to_string x =
     (if x < 0 then [45] else []) @ digits_of (nat \<lfloor>\<bar>x\<bar>\<rfloor>) @
     (if frac \<bar>x\<bar> = 0 then [] else 46 # fraction_digits 20 (frac \<bar>x\<bar>))"

definition to_string :: "jsValue \<Rightarrow> jsString" where
  "to_string v =
     (case v of JNumber x \<Rightarrow> number_to_string x | JNaN \<Rightarrow> ascii ''NaN'' | JString s \<Rightarrow> s)"

definition to_number :: "jsValue \<Rightarrow> real option" where
  "to_number v =
     (case v of JNumber x \<Rightarrow> Some x | JNaN \<Rightarrow> None | JString s \<Rightarrow> string_to_number s)"

text \<open>
  The operators the handlers apply to such values. \<open>a + b\<close> joins the strings of its
  operands when one of them is a string and adds numbers otherwise; \<open>a * b\<close> and
  \<open>a - b\<close> read both operands as numbers.
\<close>

definition js_plus :: "jsValue \<Rightarrow> jsValue \<Rightarrow> jsValue" where
  "js_plus a b =
     (case (a, b) of
        (JNumber x, JNumber y) \<Rightarrow> JNumber (x + y)
      | (JString s, _) \<Rightarrow> JString (s @ to_string b)
      | (_, JString t) \<Rightarrow> JString (to_string a @ t)
      | _ \<Rightarrow> JNaN)"

definition js_times :: "jsValue \<Rightarrow> jsValue \<Rightarrow> jsValue" where
  "js_times a b =
     (case (to_number a, to_number b) of
        (Some x, Some y) \<Rightarrow> JNumber (x * y)
      | _ \<Rightarrow> JNaN)"

definition js_minus :: "jsValue \<Rightarrow> jsValue \<Rightarrow> jsValue" where
  "js_minus a b =
     (case (to_number a, to_number b) of
        (Some x, Some y) \<Rightarrow> JNumber (x - y)
      | _ \<Rightarrow> JNaN)"

text \<open>
  What Mongoose stores for a value written to a path of type \<open>Number\<close>: a number as it
  is, a string as the number it reads as; \<open>NaN\<close> and the empty string are not stored as
  a number (\<open>None\<close>).
\<close>

definition cast_number :: "jsValue \<Rightarrow> real option" where
  "cast_number v =
     (case v of
        JNumber x \<Rightarrow> Some x
      | JNaN \<Rightarrow> None
      | JString s \<Rightarrow> if s = [] then None else string_to_number s)"

text \<open>
  The validator \<open>isInt({ min: m })\<close>: the string of the value matches
  \<open>^[-+]?[0-9]+$\<close> and, read as a number, is at least \<open>m\<close>. The string of a number
  has this form when the number is an integer below \<open>10^21\<close> in size; from there on it
  is written with an exponent.
\<close>

definition int_text :: "jsString \<Rightarrow> bool" where
  "int_text s \<longleftrightarrow>
     (case s of
        [] \<Rightarrow> False
      | c # cs \<Rightarrow>
          if c = 45 \<or> c = 43 then cs \<noteq> [] \<and> list_all is_digit cs
          else list_all is_digit (c # cs))"

definition isInt :: "int \<Rightarrow> jsValue \<Rightarrow> bool" where
  "isInt m v \<longleftrightarrow>
     (case v of
        JNumber x \<Rightarrow> of_int \<lfloor>x\<rfloor> = x \<and> \<bar>x\<bar> < 10 ^ 21 \<and> of_int m \<le> x
      | JNaN \<Rightarrow> False
      | JString s \<Rightarrow>
          int_text s \<and> (case string_to_number s of None \<Rightarrow> False | Some x \<Rightarrow> of_int m \<le> x))"

subsection \<open>Cart (src/cartModel.js)\<close>

record cartItem =
  ci_product :: objectId
  ci_quantity :: int
  ci_price :: real
  ci_total :: real

record cart =
  c_user :: objectId
  c_items :: "cartItem list"
  c_subtotal :: real
  c_totalItems :: int
  c_lastUpdated :: date

datatype cartError =
    CartValidationError  \<comment> \<open>a schema validator (\<open>min\<close>) rejects the document; \<open>save()\<close> fails\<close>
  | ItemNotFound         \<comment> \<open>\<open>throw new Error('Item not found in cart')\<close>\<close>

text \<open>
  The schema validators of \<open>cartItemSchema\<close> and \<open>cartSchema\<close>: \<open>quantity\<close> has
  \<open>min: 1\<close>; \<open>price\<close>, \<open>total\<close>, \<open>subtotal\<close> and \<open>totalItems\<close> have \<open>min: 0\<close>.
\<close>

definition cartItem_valid :: "cartItem \<Rightarrow> bool" where
  "cartItem_valid it \<longleftrightarrow> 1 \<le> ci_quantity it \<and> 0 \<le> ci_price it \<and> 0 \<le> ci_total it"

definition cart_valid :: "cart \<Rightarrow> bool" where
  "cart_valid c \<longleftrightarrow>
     list_all cartItem_valid (c_items c) \<and> 0 \<le> c_subtotal c \<and> 0 \<le> c_totalItems c"

text \<open>\<open>cartItemSchema.pre('save')\<close>: \<open>this.total = this.price * this.quantity\<close>.\<close>

definition cartItem_pre_save :: "cartItem \<Rightarrow> cartItem" where
  "cartItem_pre_save it = it\<lparr>ci_total := ci_price it * of_int (ci_quantity it)\<rparr>"

text \<open>
  \<open>cartSchema.pre('save')\<close>: both sums are \<open>reduce\<close> calls from \<open>0\<close>, left to right,
  and \<open>lastUpdated\<close> is set to the current time.
\<close>

definition cart_pre_save :: "date \<Rightarrow> cart \<Rightarrow> cart" where
  "cart_pre_save now c =
     c\<lparr>c_subtotal := foldl (\<lambda>sum item. sum + ci_total item) 0 (c_items c),
       c_totalItems := foldl (\<lambda>sum item. sum + ci_quantity item) 0 (c_items c),
       c_lastUpdated := now\<rparr>"

text \<open>
  \<open>save()\<close> of a cart document. Mongoose validates the document first, then runs the
  \<open>save\<close> middleware of every subdocument of \<open>items\<close>, then the cart's own; the result
  is the persisted document. A validation failure rejects and persists nothing.
\<close>

definition save :: "date \<Rightarrow> cart \<Rightarrow> cartError + cart" where
  "save now c =
     (if cart_valid c
      then Inr (cart_pre_save now (c\<lparr>c_items := map cartItem_pre_save (c_items c)\<rparr>))
      else Inl CartValidationError)"

text \<open>\<open>Array.prototype.findIndex\<close>: the first index whose element satisfies the test.\<close>

fun findIndex :: "('a \<Rightarrow> bool) \<Rightarrow> 'a list \<Rightarrow> nat option" where
  "findIndex P [] = None"
| "findIndex P (x # xs) = (if P x then Some 0 else map_option Suc (findIndex P xs))"

definition addItem :: "objectId \<Rightarrow> int \<Rightarrow> real \<Rightarrow> date \<Rightarrow> cart \<Rightarrow> cartError + cart" where
  "addItem productId quantity price now c =
     (case findIndex (\<lambda>item. ci_product item = productId) (c_items c) of
        Some i \<Rightarrow>
          (let item = c_items c ! i;
               q = ci_quantity item + quantity
           in save now
                (c\<lparr>c_items := (c_items c)[i := item\<lparr>ci_quantity := q,
                                                    ci_total := of_int q * price\<rparr>]\<rparr>))
      | None \<Rightarrow>
          save now
            (c\<lparr>c_items := c_items c @
                 [\<lparr>ci_product = productId, ci_quantity = quantity, ci_price = price,
                   ci_total = of_int quantity * price\<rparr>]\<rparr>))"

definition updateItem :: "objectId \<Rightarrow> int \<Rightarrow> date \<Rightarrow> cart \<Rightarrow> cartError + cart" where
  "updateItem productId quantity now c =
     (case findIndex (\<lambda>item. ci_product item = productId) (c_items c) of
        Some i \<Rightarrow>
          (if quantity \<le> 0
           then save now (c\<lparr>c_items := take i (c_items c) @ drop (Suc i) (c_items c)\<rparr>)
           else
             (let item = c_items c ! i
              in save now
                   (c\<lparr>c_items := (c_items c)[i := item\<lparr>ci_quantity := quantity,
                        ci_total := of_int quantity * ci_price item\<rparr>]\<rparr>)))
      | None \<Rightarrow> Inl ItemNotFound)"

definition removeItem :: "objectId \<Rightarrow> date \<Rightarrow> cart \<Rightarrow> cartError + cart" where
  "removeItem productId now c =
     save now (c\<lparr>c_items := filter (\<lambda>item. ci_product item \<noteq> productId) (c_items c)\<rparr>)"

definition clearCart :: "date \<Rightarrow> cart \<Rightarrow> cartError + cart" where
  "clearCart now c = save now (c\<lparr>c_items := []\<rparr>)"

subsection \<open>Documents of the catalog and of the order collection\<close>

record product =
  p_id :: objectId
  p_name :: string
  p_price :: real
  p_stock :: int
  p_isActive :: bool

text \<open>\<open>req.user\<close>, as the \<open>protect\<close> middleware supplies it: an id and a role.\<close>

datatype role = Admin | Customer

record user =
  u_id :: objectId
  u_role :: role

datatype orderStatus = Pending | Confirmed | Processing | Shipped | Delivered | Cancelled

datatype paymentStatus = PaymentPending | Paid | Failed | Refunded

record address =
  firstName :: jsString
  lastName :: jsString
  street :: jsString
  city :: jsString
  state :: jsString
  zipCode :: jsString
  country :: jsString
  phone :: jsString

record orderItem =
  oi_product :: objectId
  oi_quantity :: int
  oi_price :: real
  oi_total :: real

record order =
  o_id :: objectId
  o_customer :: objectId
  o_items :: "orderItem list"
  o_shippingAddress :: address
  o_billingAddress :: address
  o_subtotal :: real
  o_taxAmount :: real
  o_shippingCost :: real
  o_totalAmount :: real
  o_notes :: "string option"
  o_status :: orderStatus
  o_paymentStatus :: paymentStatus
  o_trackingNumber :: "string option"
  o_estimatedDelivery :: "date option"
  o_deliveredAt :: "date option"
  o_cancelledAt :: "date option"
  o_cancelReason :: "string option"
  o_createdAt :: date

text \<open>The two collections the order routes and the stock route work on.\<close>

record db =
  products :: "product list"
  orders :: "order list"

text \<open>
  What a handler answers when it does not answer with its data: the HTTP status and the
  \<open>message\<close> of the JSON body, with the values a message template interpolates.
\<close>

datatype error =
    ValidationError
      \<comment> \<open>400 \<open>'Validation error'\<close>\<close>
  | ProductsUnavailable
      \<comment> \<open>400 \<open>'One or more products are not available'\<close>\<close>
  | ProductNotFoundFor objectId
      \<comment> \<open>400 \<open>`Product not found: ${item.product}`\<close>\<close>
  | InsufficientStock string int int
      \<comment> \<open>400 \<open>`Insufficient stock for ${product.name}. Available: ${product.stock},
          Requested: ${item.quantity}`\<close>\<close>
  | OrderNotFound
      \<comment> \<open>404 \<open>'Order not found'\<close>\<close>
  | OrderNotFoundOrNotCancellable
      \<comment> \<open>404 \<open>'Order not found or cannot be cancelled'\<close>\<close>
  | AlreadyCancelled
      \<comment> \<open>400 \<open>'Order is already cancelled'\<close>\<close>
  | ProductNotFound
      \<comment> \<open>404 \<open>'Product not found'\<close>\<close>
  | Forbidden
      \<comment> \<open>the \<open>admin\<close> middleware turns the caller away\<close>
  | ServerError
      \<comment> \<open>500 \<open>'Server error'\<close>: the handler's \<open>catch\<close>\<close>

subsection \<open>Queries and updates on a collection\<close>

text \<open>
  \<open>findOne\<close>/\<open>findById\<close> answer the first document that matches (\<open>List.find\<close>).
  \<open>findOneAndUpdate\<close>/\<open>findByIdAndUpdate\<close> change the first document that matches and
  leave the collection alone when none does; with \<open>new: true\<close> the answer is the changed
  document, \<open>null\<close> (\<open>None\<close>) when there was none.
\<close>

fun findOneAndUpdate :: "('a \<Rightarrow> bool) \<Rightarrow> ('a \<Rightarrow> 'a) \<Rightarrow> 'a list \<Rightarrow> 'a list" where
  "findOneAndUpdate P f [] = []"
| "findOneAndUpdate P f (d # ds) = (if P d then f d # ds else d # findOneAndUpdate P f ds)"

definition updated_doc :: "('a \<Rightarrow> bool) \<Rightarrow> ('a \<Rightarrow> 'a) \<Rightarrow> 'a list \<Rightarrow> 'a option" where
  "updated_doc P f ds = map_option f (find P ds)"

text \<open>\<open>Product.findByIdAndUpdate(id, { $inc: { stock: n } })\<close>.\<close>

definition inc_stock :: "objectId \<Rightarrow> int \<Rightarrow> product list \<Rightarrow> product list" where
  "inc_stock i n = findOneAndUpdate (\<lambda>p. p_id p = i) (\<lambda>p. p\<lparr>p_stock := p_stock p + n\<rparr>)"

text \<open>\<open>Product.findByIdAndUpdate(id, { stock: newStock })\<close>.\<close>

definition set_stock :: "objectId \<Rightarrow> int \<Rightarrow> product list \<Rightarrow> product list" where
  "set_stock i n = findOneAndUpdate (\<lambda>p. p_id p = i) (\<lambda>p. p\<lparr>p_stock := n\<rparr>)"

text \<open>
  Modelled from the spec: the \<open>admin\<close> middleware of authController.js is not among the
  sources; the spec's Auth collaborator supplies a role that is user or admin, and an
  admin-only route turns every other caller away (\<open>Forbidden\<close>) before its handler runs.
\<close>

definition admin :: "user \<Rightarrow> bool" where
  "admin caller \<longleftrightarrow> u_role caller = Admin"

subsection \<open>Stock adjustment (src/productsRoutes.js, PATCH /:id/stock)\<close>

datatype operation = OpSet | OpAdd | OpSubtract

record stockBody =
  sb_stock :: jsValue
  sb_operation :: "operation option"

record stockResult =
  sr_product :: "product option"
  sr_previousStock :: int
  sr_newStock :: jsValue
  sr_operation :: operation

text \<open>
  The validators: \<open>stock\<close> passes \<open>isInt({ min: 0 })\<close>, which a number and the text of a
  number both can, and the handler reads the value as it arrived; \<open>operation\<close>, when
  given, is one of \<open>set\<close>, \<open>add\<close>, \<open>subtract\<close> (a property of the type here), and is
  \<open>set\<close> when left out. \<open>add\<close> is \<open>product.stock + stock\<close>, \<open>subtract\<close> is
  \<open>Math.max(0, product.stock - stock)\<close>, and the result is written to the \<open>stock\<close> path
  of the product, which is of type \<open>Number\<close>; a value that is no number there makes the
  update throw, and the handler answers 500. What is stored for a request that passes
  the validator is an integer.
\<close>

definition stock_route :: "user \<Rightarrow> objectId \<Rightarrow> stockBody \<Rightarrow> db \<Rightarrow> (error + stockResult) \<times> db" where
  "stock_route caller i body d =
     (if \<not> admin caller then (Inl Forbidden, d)
      else if \<not> isInt 0 (sb_stock body) then (Inl ValidationError, d)
      else
        (let stock = sb_stock body;
             operation = (case sb_operation body of None \<Rightarrow> OpSet | Some x \<Rightarrow> x)
         in case find (\<lambda>p. p_id p = i) (products d) of
              None \<Rightarrow> (Inl ProductNotFound, d)
            | Some product \<Rightarrow>
                (let newStock =
                       (case operation of
                          OpAdd \<Rightarrow> js_plus (JNumber (of_int (p_stock product))) stock
                        | OpSubtract \<Rightarrow>
                            (case js_minus (JNumber (of_int (p_stock product))) stock of
                               JNumber x \<Rightarrow> JNumber (max 0 x)
                             | other \<Rightarrow> JNaN)
                        | OpSet \<Rightarrow> stock)
                 in case cast_number newStock of
                      None \<Rightarrow> (Inl ServerError, d)
                    | Some stored \<Rightarrow>
                        (Inr \<lparr>sr_product =
                                updated_doc (\<lambda>p. p_id p = i) (\<lambda>p. p\<lparr>p_stock := \<lfloor>stored\<rfloor>\<rparr>)
                                  (products d),
                              sr_previousStock = p_stock product,
                              sr_newStock = newStock,
                              sr_operation = operation\<rparr>,
                         d\<lparr>products := set_stock i \<lfloor>stored\<rfloor> (products d)\<rparr>))))"

subsection \<open>Order creation (the order routes in src/productModel.js, POST /)\<close>

record orderRequestItem =
  ri_product :: objectId
  ri_quantity :: int

record orderBody =
  b_items :: "orderRequestItem list"
  b_shippingAddress :: address
  b_billingAddress :: "address option"
  b_notes :: "string option"
  b_taxRate :: "jsValue option"
  b_shippingCost :: "jsValue option"

text \<open>
  The validators of the route. \<open>items\<close> is an array of at least one element, every
  \<open>quantity\<close> is an integer that is at least 1, and every field of the shipping address
  is not empty once trimmed. That a product id is an ObjectId is a property of the
  type. A quantity may arrive as the text of an integer; the handler uses it only in a
  comparison, a product, a negation and a field that is stored as a number, all of
  which read it as its number, so it is that number here. \<open>taxRate\<close> and \<open>shippingCost\<close>
  have no validator.
\<close>

definition address_valid :: "address \<Rightarrow> bool" where
  "address_valid a \<longleftrightarrow>
     notEmpty (firstName a) \<and> notEmpty (lastName a) \<and> notEmpty (street a) \<and>
     notEmpty (city a) \<and> notEmpty (state a) \<and> notEmpty (zipCode a) \<and>
     notEmpty (country a) \<and> notEmpty (phone a)"

definition orderBody_valid :: "orderBody \<Rightarrow> bool" where
  "orderBody_valid body \<longleftrightarrow>
     b_items body \<noteq> [] \<and>
     list_all (\<lambda>item. 1 \<le> ri_quantity item) (b_items body) \<and>
     address_valid (b_shippingAddress body)"

text \<open>
  \<open>new Map(products.map(p => [p._id.toString(), p]))\<close>: a later entry for a key
  replaces an earlier one, so the lookup reads the reversed list.
\<close>

definition productMap :: "product list \<Rightarrow> objectId \<Rightarrow> product option" where
  "productMap ps = map_of (rev (map (\<lambda>p. (p_id p, p)) ps))"

text \<open>
  The loop over the requested items: it stops at the first item whose product is not
  in the map or whose quantity is more than the stock, and otherwise appends the order
  line, with the product's price of this moment, and adds the line total to the subtotal.
\<close>

fun process_items ::
  "(objectId \<Rightarrow> product option) \<Rightarrow> orderRequestItem list \<Rightarrow> orderItem list \<Rightarrow> real \<Rightarrow>
     error + orderItem list \<times> real" where
  "process_items pm [] orderItems subtotal = Inr (orderItems, subtotal)"
| "process_items pm (item # items) orderItems subtotal =
     (case pm (ri_product item) of
        None \<Rightarrow> Inl (ProductNotFoundFor (ri_product item))
      | Some product \<Rightarrow>
          if p_stock product < ri_quantity item
          then Inl (InsufficientStock (p_name product) (p_stock product) (ri_quantity item))
          else
            (let itemTotal = p_price product * of_int (ri_quantity item)
             in process_items pm items
                  (orderItems @
                     [\<lparr>oi_product = p_id product, oi_quantity = ri_quantity item,
                       oi_price = p_price product, oi_total = itemTotal\<rparr>])
                  (subtotal + itemTotal)))"

text \<open>
  Modelled from the spec: orderModel.js, the schema of the order documents, is not among
  the sources. An order is created with status \<open>pending\<close> and payment status \<open>pending\<close>,
  has a creation timestamp, and carries no tracking number, estimated delivery,
  delivery or cancellation data until a transition sets them. The new document's id is
  the one the driver generates, an input here.
\<close>

definition Order_create ::
  "objectId \<Rightarrow> date \<Rightarrow> objectId \<Rightarrow> orderItem list \<Rightarrow> address \<Rightarrow> address \<Rightarrow> real \<Rightarrow> real \<Rightarrow>
     real \<Rightarrow> real \<Rightarrow> string option \<Rightarrow> order" where
  "Order_create newId now customer items shippingAddress billingAddress subtotal taxAmount
       shippingCost totalAmount notes =
     \<lparr>o_id = newId, o_customer = customer, o_items = items,
      o_shippingAddress = shippingAddress, o_billingAddress = billingAddress,
      o_subtotal = subtotal, o_taxAmount = taxAmount, o_shippingCost = shippingCost,
      o_totalAmount = totalAmount, o_notes = notes,
      o_status = Pending, o_paymentStatus = PaymentPending,
      o_trackingNumber = None, o_estimatedDelivery = None, o_deliveredAt = None,
      o_cancelledAt = None, o_cancelReason = None, o_createdAt = now\<rparr>"

text \<open>The loop \<open>$inc: { stock: -item.quantity }\<close> over the requested items.\<close>

definition reserve_stock :: "orderRequestItem list \<Rightarrow> product list \<Rightarrow> product list" where
  "reserve_stock items ps =
     foldl (\<lambda>ps item. inc_stock (ri_product item) (- ri_quantity item) ps) ps items"

text \<open>
  Modelled from the spec: orderModel.js is not among the sources. The tax amount, the
  shipping cost and the total amount of an order are numbers, so \<open>Order.create\<close> stores
  what each of the three values is as a number, and throws when one of them is none.
\<close>

definition Order_numbers :: "jsValue \<Rightarrow> jsValue \<Rightarrow> jsValue \<Rightarrow> (real \<times> real \<times> real) option" where
  "Order_numbers taxAmount shippingCost totalAmount =
     (case (cast_number taxAmount, cast_number shippingCost, cast_number totalAmount) of
        (Some a, Some b, Some c) \<Rightarrow> Some (a, b, c)
      | _ \<Rightarrow> None)"

text \<open>
  \<open>taxRate = 0.08\<close> and \<open>shippingCost = 0\<close> in the destructuring of the body: the
  values when the request leaves them out.
\<close>

definition taxRate_of :: "orderBody \<Rightarrow> jsValue" where
  "taxRate_of body = (case b_taxRate body of None \<Rightarrow> JNumber 0.08 | Some r \<Rightarrow> r)"

definition shippingCost_of :: "orderBody \<Rightarrow> jsValue" where
  "shippingCost_of body = (case b_shippingCost body of None \<Rightarrow> JNumber 0 | Some c \<Rightarrow> c)"

text \<open>
  \<open>taxAmount = subtotal * taxRate\<close> and
  \<open>totalAmount = subtotal + taxAmount + shippingCost\<close>, with the operators of the
  language, the sum taken from the left.
\<close>

definition taxAmount_of :: "real \<Rightarrow> jsValue \<Rightarrow> jsValue" where
  "taxAmount_of subtotal taxRate = js_times (JNumber subtotal) taxRate"

definition totalAmount_of :: "real \<Rightarrow> jsValue \<Rightarrow> jsValue \<Rightarrow> jsValue" where
  "totalAmount_of subtotal taxAmount shippingCost =
     js_plus (js_plus (JNumber subtotal) taxAmount) shippingCost"

text \<open>
  The handler. Every answer with an error is given before the first write; the order
  document is created, then the stock of every requested item is decremented. The
  answer is the created order. (Between the two writes the handler also registers the \<open>/from-cart\<close> route,
  whose body is a stub; that touches no document.) When \<open>Order.create\<close> throws, the
  handler answers 500 and nothing has been written.
\<close>

definition create_order ::
  "user \<Rightarrow> orderBody \<Rightarrow> objectId \<Rightarrow> date \<Rightarrow> db \<Rightarrow> (error + order) \<times> db" where
  "create_order caller body newId now d =
     (if \<not> orderBody_valid body then (Inl ValidationError, d)
      else
        (let items = b_items body;
             taxRate = taxRate_of body;
             shippingCost = shippingCost_of body;
             productIds = map ri_product items;
             found = filter (\<lambda>p. p_id p \<in> set productIds \<and> p_isActive p) (products d)
         in if length found \<noteq> length productIds then (Inl ProductsUnavailable, d)
            else
              (case process_items (productMap found) items [] 0 of
                 Inl e \<Rightarrow> (Inl e, d)
               | Inr (orderItems, subtotal) \<Rightarrow>
                   (let taxAmount = taxAmount_of subtotal taxRate;
                        totalAmount = totalAmount_of subtotal taxAmount shippingCost
                    in case Order_numbers taxAmount shippingCost totalAmount of
                         None \<Rightarrow> (Inl ServerError, d)
                       | Some (taxStored, shippingStored, totalStored) \<Rightarrow>
                           (let order =
                                  Order_create newId now (u_id caller) orderItems
                                    (b_shippingAddress body)
                                    (case b_billingAddress body of
                                       None \<Rightarrow> b_shippingAddress body
                                     | Some a \<Rightarrow> a)
                                    subtotal taxStored shippingStored totalStored
                                    (b_notes body)
                            in (Inr order,
                                d\<lparr>orders := orders d @ [order],
                                  products := reserve_stock items (products d)\<rparr>))))))"

subsection \<open>Order status (PATCH /:id/status and PATCH /:id/cancel of the order routes)\<close>

record statusBody =
  st_status :: orderStatus
  st_trackingNumber :: "string option"
  st_cancelReason :: "string option"

text \<open>The loop \<open>$inc: { stock: item.quantity }\<close> over the items of an order.\<close>

definition restore_stock :: "orderItem list \<Rightarrow> product list \<Rightarrow> product list" where
  "restore_stock items ps =
     foldl (\<lambda>ps item. inc_stock (oi_product item) (oi_quantity item) ps) ps items"

text \<open>
  A reason that the request does not give is \<open>undefined\<close> in the update document, and
  Mongoose leaves it out of the update: the stored reason stays as it is.
\<close>

definition set_cancelReason :: "string option \<Rightarrow> order \<Rightarrow> order" where
  "set_cancelReason reason ord =
     (case reason of None \<Rightarrow> ord | Some r \<Rightarrow> ord\<lparr>o_cancelReason := Some r\<rparr>)"

text \<open>
  \<open>updateData\<close> of the status route, as the change it makes to the order document. A
  tracking number counts when it is given and not the empty string; three days are
  \<open>3 * 24 * 60 * 60 * 1000\<close> milliseconds.
\<close>

definition updateData :: "statusBody \<Rightarrow> date \<Rightarrow> order \<Rightarrow> order" where
  "updateData body now =
     (\<lambda>ord. if st_status body = Cancelled
             then set_cancelReason (st_cancelReason body) (ord\<lparr>o_cancelledAt := Some now\<rparr>)
             else ord) \<circ>
     (\<lambda>ord. if st_status body = Delivered
             then ord\<lparr>o_deliveredAt := Some now, o_paymentStatus := Paid\<rparr>
             else ord) \<circ>
     (\<lambda>ord. case st_trackingNumber body of
               Some trackingNumber \<Rightarrow>
                 if st_status body = Shipped \<and> trackingNumber \<noteq> []
                 then ord\<lparr>o_trackingNumber := Some trackingNumber,
                          o_estimatedDelivery := Some (now + 3 * 24 * 60 * 60 * 1000)\<rparr>
                 else ord
             | None \<Rightarrow> ord) \<circ>
     (\<lambda>ord. ord\<lparr>o_status := st_status body\<rparr>)"

text \<open>
  The status route, for admins only. The handler reads the order by id and never looks
  at its current status: it writes the requested status, and on \<open>cancelled\<close> restores
  the stock of every item of the order. That \<open>status\<close> is one of the six values is a
  property of the type.
\<close>

definition update_status ::
  "user \<Rightarrow> objectId \<Rightarrow> statusBody \<Rightarrow> date \<Rightarrow> db \<Rightarrow> (error + order option) \<times> db" where
  "update_status caller i body now d =
     (if \<not> admin caller then (Inl Forbidden, d)
      else
        (case find (\<lambda>ord. o_id ord = i) (orders d) of
           None \<Rightarrow> (Inl OrderNotFound, d)
         | Some order \<Rightarrow>
             (let restored =
                    (if st_status body = Cancelled
                     then restore_stock (o_items order) (products d)
                     else products d)
              in (Inr (updated_doc (\<lambda>ord. o_id ord = i) (updateData body now) (orders d)),
                  d\<lparr>products := restored,
                    orders :=
                      findOneAndUpdate (\<lambda>ord. o_id ord = i) (updateData body now)
                        (orders d)\<rparr>))))"

text \<open>
  The cancel route, for every authenticated caller. A caller who is not an admin only
  finds an order of their own that is pending. The validator of \<open>reason\<close> is declared
  but its result is never read, so it rejects nothing.
\<close>

definition cancel_query :: "user \<Rightarrow> objectId \<Rightarrow> order \<Rightarrow> bool" where
  "cancel_query caller i ord \<longleftrightarrow>
     o_id ord = i \<and>
     (if u_role caller \<noteq> Admin
      then o_customer ord = u_id caller \<and> o_status ord = Pending
      else True)"

definition cancel_update :: "string option \<Rightarrow> date \<Rightarrow> order \<Rightarrow> order" where
  "cancel_update reason now ord =
     set_cancelReason reason (ord\<lparr>o_status := Cancelled, o_cancelledAt := Some now\<rparr>)"

definition cancel_order ::
  "user \<Rightarrow> objectId \<Rightarrow> string option \<Rightarrow> date \<Rightarrow> db \<Rightarrow> (error + order option) \<times> db" where
  "cancel_order caller i reason now d =
     (case find (cancel_query caller i) (orders d) of
        None \<Rightarrow> (Inl OrderNotFoundOrNotCancellable, d)
      | Some order \<Rightarrow>
          if o_status order = Cancelled then (Inl AlreadyCancelled, d)
          else
            (Inr (updated_doc (\<lambda>ord. o_id ord = i) (cancel_update reason now) (orders d)),
             d\<lparr>products := restore_stock (o_items order) (products d),
               orders :=
                 findOneAndUpdate (\<lambda>ord. o_id ord = i) (cancel_update reason now)
                   (orders d)\<rparr>))"

subsection \<open>Reading orders (GET /:id and GET / of the order routes)\<close>

definition get_query :: "user \<Rightarrow> objectId \<Rightarrow> order \<Rightarrow> bool" where
  "get_query caller i ord \<longleftrightarrow>
     o_id ord = i \<and> (if u_role caller \<noteq> Admin then o_customer ord = u_id caller else True)"

definition get_order :: "user \<Rightarrow> objectId \<Rightarrow> db \<Rightarrow> error + order" where
  "get_order caller i d =
     (case find (get_query caller i) (orders d) of
        None \<Rightarrow> Inl OrderNotFound
      | Some order \<Rightarrow> Inr order)"

record listQuery =
  q_page :: "int option"
  q_limit :: "int option"
  q_status :: "orderStatus option"
  q_paymentStatus :: "paymentStatus option"
  q_startDate :: "date option"
  q_endDate :: "date option"
  q_sortBy :: "string option"
  q_sortOrder :: "string option"

record listResult =
  lr_orders :: "order list"
  lr_currentPage :: int
  lr_totalPages :: "int option"
  lr_totalItems :: nat
  lr_itemsPerPage :: int

text \<open>The filter document \<open>query\<close> of the list route, as a test on an order.\<close>

definition list_filter :: "user \<Rightarrow> listQuery \<Rightarrow> order \<Rightarrow> bool" where
  "list_filter caller q ord \<longleftrightarrow>
     (if u_role caller \<noteq> Admin then o_customer ord = u_id caller else True) \<and>
     (case q_status q of None \<Rightarrow> True | Some s \<Rightarrow> o_status ord = s) \<and>
     (case q_paymentStatus q of None \<Rightarrow> True | Some s \<Rightarrow> o_paymentStatus ord = s) \<and>
     (case q_startDate q of None \<Rightarrow> True | Some t \<Rightarrow> t \<le> o_createdAt ord) \<and>
     (case q_endDate q of None \<Rightarrow> True | Some t \<Rightarrow> o_createdAt ord \<le> t)"

text \<open>
  The value the database sorts by, for the number and date fields every order has; a
  path that names no such field gives every document the same rank. With \<open>1\<close> the
  sort is ascending, with \<open>-1\<close> descending, and \<open>sortOrder\<close> asks for \<open>1\<close> only when it
  is \<open>'asc'\<close>.
\<close>

definition sort_value :: "string \<Rightarrow> order \<Rightarrow> real" where
  "sort_value sortBy ord =
     (if sortBy = ''createdAt'' then of_int (o_createdAt ord)
      else if sortBy = ''subtotal'' then o_subtotal ord
      else if sortBy = ''taxAmount'' then o_taxAmount ord
      else if sortBy = ''shippingCost'' then o_shippingCost ord
      else if sortBy = ''totalAmount'' then o_totalAmount ord
      else 0)"

definition sort_orders :: "string \<Rightarrow> string \<Rightarrow> order list \<Rightarrow> order list" where
  "sort_orders sortBy sortOrder os =
     (if sortOrder = ''asc'' then sort_key (sort_value sortBy) os
      else rev (sort_key (sort_value sortBy) os))"

text \<open>
  The list route. \<open>limit(0)\<close> sets no limit and a negative limit counts as its absolute
  value; a negative \<open>skip\<close> is an error of the database, which the handler answers with
  500. \<open>totalPages\<close> is \<open>Math.ceil(total / limit)\<close>, not a number of the JSON answer when
  \<open>limit\<close> is 0.
\<close>

definition list_orders :: "user \<Rightarrow> listQuery \<Rightarrow> db \<Rightarrow> error + listResult" where
  "list_orders caller q d =
     (let page = (case q_page q of None \<Rightarrow> 1 | Some n \<Rightarrow> n);
          limit = (case q_limit q of None \<Rightarrow> 10 | Some n \<Rightarrow> n);
          sortBy = (case q_sortBy q of None \<Rightarrow> ''createdAt'' | Some f \<Rightarrow> f);
          sortOrder = (case q_sortOrder q of None \<Rightarrow> ''desc'' | Some x \<Rightarrow> x);
          matching = filter (list_filter caller q) (orders d);
          skipped = (page - 1) * limit
      in if skipped < 0 then Inl ServerError
         else
           (let sorted = sort_orders sortBy sortOrder matching;
                rest = drop (nat skipped) sorted;
                total = length matching
            in Inr \<lparr>lr_orders = (if limit = 0 then rest else take (nat \<bar>limit\<bar>) rest),
                     lr_currentPage = page,
                     lr_totalPages =
                       (if limit = 0 then None
                        else Some \<lceil>real total / real_of_int limit\<rceil>),
                     lr_totalItems = total,
                     lr_itemsPerPage = limit\<rparr>))"

subsection \<open>Example documents\<close>

definition cart0 :: cart where
  "cart0 = \<lparr>c_user = ''u1'',
            c_items = [\<lparr>ci_product = ''apple'', ci_quantity = 1, ci_price = 2, ci_total = 2\<rparr>],
            c_subtotal = 2, c_totalItems = 1, c_lastUpdated = 0\<rparr>"

definition apple :: product where
  "apple = \<lparr>p_id = ''apple'', p_name = ''Apple'', p_price = 2, p_stock = 5, p_isActive = True\<rparr>"

definition pear :: product where
  "pear = \<lparr>p_id = ''pear'', p_name = ''Pear'', p_price = 3, p_stock = 10, p_isActive = True\<rparr>"

definition kiwi :: product where
  "kiwi = \<lparr>p_id = ''kiwi'', p_name = ''Kiwi'', p_price = 1, p_stock = 4, p_isActive = False\<rparr>"

definition alice :: user where
  "alice = \<lparr>u_id = ''alice'', u_role = Customer\<rparr>"

definition bob :: user where
  "bob = \<lparr>u_id = ''bob'', u_role = Customer\<rparr>"

definition carol :: user where
  "carol = \<lparr>u_id = ''carol'', u_role = Admin\<rparr>"

definition db0 :: db where
  "db0 = \<lparr>products = [apple, pear, kiwi], orders = []\<rparr>"

definition addr0 :: address where
  "addr0 = \<lparr>firstName = ascii ''Ada'', lastName = ascii ''Lee'',
            street = ascii ''1 Main St'', city = ascii ''Oslo'', state = ascii ''OS'',
            zipCode = ascii ''0150'', country = ascii ''NO'', phone = ascii ''555''\<rparr>"

definition body_ok :: orderBody where
  "body_ok = \<lparr>b_items = [\<lparr>ri_product = ''apple'', ri_quantity = 2\<rparr>,
                         \<lparr>ri_product = ''pear'', ri_quantity = 1\<rparr>],
              b_shippingAddress = addr0, b_billingAddress = None, b_notes = None,
              b_taxRate = None, b_shippingCost = None\<rparr>"

definition body_short :: orderBody where
  "body_short = body_ok\<lparr>b_items := [\<lparr>ri_product = ''apple'', ri_quantity = 3\<rparr>,
                                   \<lparr>ri_product = ''pear'', ri_quantity = 1000\<rparr>]\<rparr>"

definition body_unavailable :: orderBody where
  "body_unavailable = body_ok\<lparr>b_items := [\<lparr>ri_product = ''kiwi'', ri_quantity = 1\<rparr>,
                                         \<lparr>ri_product = ''pear'', ri_quantity = 1000\<rparr>]\<rparr>"

definition body_duplicate :: orderBody where
  "body_duplicate = body_ok\<lparr>b_items := [\<lparr>ri_product = ''pear'', ri_quantity = 1\<rparr>,
                                       \<lparr>ri_product = ''pear'', ri_quantity = 1000\<rparr>]\<rparr>"


definition order1 :: order where
  "order1 = Order_create ''o1'' 100 ''alice''
     [\<lparr>oi_product = ''apple'', oi_quantity = 2, oi_price = 2, oi_total = 4\<rparr>,
      \<lparr>oi_product = ''pear'', oi_quantity = 1, oi_price = 3, oi_total = 3\<rparr>]
     addr0 addr0 7 0.56 0 7.56 None"

definition db1 :: db where
  "db1 = \<lparr>products = [apple\<lparr>p_stock := 3\<rparr>, pear\<lparr>p_stock := 9\<rparr>, kiwi], orders = [order1]\<rparr>"


definition order1_delivered :: order where
  "order1_delivered = order1\<lparr>o_status := Delivered, o_deliveredAt := Some 150, o_paymentStatus := Paid\<rparr>"

definition order1_cancelled :: order where
  "order1_cancelled = order1\<lparr>o_status := Cancelled, o_cancelledAt := Some 200, o_cancelReason := None\<rparr>"

definition db1_delivered :: db where
  "db1_delivered = db1\<lparr>orders := [order1_delivered]\<rparr>"

definition db1_cancelled :: db where
  "db1_cancelled = \<lparr>products = [apple, pear, kiwi], orders = [order1_cancelled]\<rparr>"

definition db1_restocked :: db where
  "db1_restocked = db1\<lparr>products := [apple\<lparr>p_stock := 13\<rparr>, pear\<lparr>p_stock := 9\<rparr>, kiwi]\<rparr>"

definition to_status :: "orderStatus \<Rightarrow> statusBody" where
  "to_status s = \<lparr>st_status = s, st_trackingNumber = None, st_cancelReason = None\<rparr>"

definition order2 :: order where
  "order2 = order1\<lparr>o_id := ''o2'', o_customer := ''bob'', o_createdAt := 110\<rparr>"

definition db2 :: db where
  "db2 = \<lparr>products = [apple\<lparr>p_stock := 1\<rparr>, pear\<lparr>p_stock := 8\<rparr>, kiwi],
          orders = [order1, order2]\<rparr>"

definition all_orders :: listQuery where
  "all_orders = \<lparr>q_page = None, q_limit = None, q_status = None, q_paymentStatus = None,
                 q_startDate = None, q_endDate = None, q_sortBy = None, q_sortOrder = None\<rparr>"

section \<open>Cart properties\<close>

lemma foldl_plus_sum_list:
  fixes f :: "'a \<Rightarrow> 'b::comm_monoid_add"
  shows "foldl (\<lambda>sum x. sum + f x) a xs = a + sum_list (map f xs)"
  by (induction xs arbitrary: a) (simp_all add: add.assoc)

lemma save_Inr_iff:
  "save now c = Inr c' \<longleftrightarrow>
     cart_valid c \<and> c' = cart_pre_save now (c\<lparr>c_items := map cartItem_pre_save (c_items c)\<rparr>)"
  by (auto simp: save_def)

lemma save_recomputes:
  assumes "save now c = Inr c'"
  shows "list_all (\<lambda>item. ci_total item = ci_price item * of_int (ci_quantity item)) (c_items c') \<and>
     c_subtotal c' = sum_list (map ci_total (c_items c')) \<and>
     c_totalItems c' = sum_list (map ci_quantity (c_items c')) \<and>
     c_lastUpdated c' = now"
  using assms unfolding save_Inr_iff
  by (simp add: cart_pre_save_def foldl_plus_sum_list cartItem_pre_save_def list_all_iff)

lemmas cart_eval = cart0_def cart_valid_def cartItem_valid_def save_def cart_pre_save_def
  cartItem_pre_save_def addItem_def updateItem_def removeItem_def clearCart_def

text \<open>
  C8. Whatever the cart was before, a cart that \<open>addItem\<close>, \<open>updateItem\<close>, \<open>removeItem\<close>
  or \<open>clearCart\<close> has persisted has every line total equal to the line's stored unit
  price times its quantity, its subtotal equal to the sum of the line totals, its item
  count equal to the sum of the quantities, and the time of the save as its
  last-modified timestamp: the derived values are computed from the items at every save.
\<close>

theorem cart_mutation_recomputes_derived_values:
  assumes "r = addItem p q pr now c \<or> r = updateItem p q now c \<or>
           r = removeItem p now c \<or> r = clearCart now c"
      and "r = Inr c'"
  shows "list_all (\<lambda>item. ci_total item = ci_price item * of_int (ci_quantity item)) (c_items c') \<and>
     c_subtotal c' = sum_list (map ci_total (c_items c')) \<and>
     c_totalItems c' = sum_list (map ci_quantity (c_items c')) \<and>
     c_lastUpdated c' = now"
proof -
  from assms obtain c0 where "save now c0 = Inr c'"
    unfolding addItem_def updateItem_def removeItem_def clearCart_def
    by (auto simp: Let_def split: option.splits if_splits)
  then show ?thesis by (rule save_recomputes)
qed

theorem cart_mutation_recomputes_derived_values_witness:
  "addItem ''pear'' 2 3 10 cart0 =
     Inr \<lparr>c_user = ''u1'',
          c_items = [\<lparr>ci_product = ''apple'', ci_quantity = 1, ci_price = 2, ci_total = 2\<rparr>,
                     \<lparr>ci_product = ''pear'', ci_quantity = 2, ci_price = 3, ci_total = 6\<rparr>],
          c_subtotal = 8, c_totalItems = 3, c_lastUpdated = 10\<rparr> \<and>
   list_all (\<lambda>item. ci_total item = ci_price item * of_int (ci_quantity item))
     [\<lparr>ci_product = ''apple'', ci_quantity = 1, ci_price = 2, ci_total = 2\<rparr>,
      \<lparr>ci_product = ''pear'', ci_quantity = 2, ci_price = 3, ci_total = 6\<rparr>] \<and>
   updateItem ''apple'' 4 11 cart0 =
     Inr \<lparr>c_user = ''u1'',
          c_items = [\<lparr>ci_product = ''apple'', ci_quantity = 4, ci_price = 2, ci_total = 8\<rparr>],
          c_subtotal = 8, c_totalItems = 4, c_lastUpdated = 11\<rparr> \<and>
   removeItem ''apple'' 12 cart0 =
     Inr \<lparr>c_user = ''u1'', c_items = [], c_subtotal = 0, c_totalItems = 0,
          c_lastUpdated = 12\<rparr> \<and>
   clearCart 13 cart0 =
     Inr \<lparr>c_user = ''u1'', c_items = [], c_subtotal = 0, c_totalItems = 0,
          c_lastUpdated = 13\<rparr>"
  using
    cart_mutation_recomputes_derived_values
      [of "addItem ''pear'' 2 3 10 cart0" "''pear''" 2 3 10 cart0]
    cart_mutation_recomputes_derived_values
      [of "updateItem ''apple'' 4 11 cart0" "''apple''" 4 3 11 cart0]
    cart_mutation_recomputes_derived_values
      [of "removeItem ''apple'' 12 cart0" "''apple''" 4 3 12 cart0]
    cart_mutation_recomputes_derived_values
      [of "clearCart 13 cart0" "''apple''" 4 3 13 cart0]
  by (simp add: cart_eval)







lemma pre_save_product [simp]: "ci_product (cartItem_pre_save it) = ci_product it"
  and pre_save_quantity [simp]: "ci_quantity (cartItem_pre_save it) = ci_quantity it"
  and pre_save_price [simp]: "ci_price (cartItem_pre_save it) = ci_price it"
  by (simp_all add: cartItem_pre_save_def)





section \<open>Inventory properties\<close>

lemma find_findOneAndUpdate:
  "(\<And>x. P x \<Longrightarrow> P (f x)) \<Longrightarrow> find P (findOneAndUpdate P f ds) = map_option f (find P ds)"
  by (induction ds) auto

lemmas example_docs = apple_def pear_def kiwi_def alice_def bob_def carol_def db0_def

lemmas js_eval = ascii_def trim_def is_space_def is_digit_def digit_value_def
  digits_value_def scale10_def exponent_value_def unsigned_decimal_def string_to_number_def
  number_to_string_def to_string_def to_number_def js_plus_def js_times_def js_minus_def
  cast_number_def int_text_def isInt_def

text \<open>
  When the \<open>stock\<close> of the request is a number, the stock route does what its three
  operations are meant to do: for an admin and a product that exists, a number that is
  an integer, at least 0 and below \<open>10^21\<close> is accepted, and the new stock \<open>n\<close> written to the product
  is the given value for \<open>set\<close> (also when no operation is named), the sum for \<open>add\<close>,
  and for \<open>subtract\<close> the difference, or 0 when the amount is more than the stock,
  which is answered like any other request, without an error. The new stock is not
  negative: always for \<open>set\<close> and \<open>subtract\<close>, and for \<open>add\<close> when the stock was not
  negative before. A negative number is turned down and changes nothing.
\<close>

lemma stock_route_number:
  assumes "admin caller"
      and "find (\<lambda>p. p_id p = i) (products d) = Some p"
      and "sb_stock body = JNumber (of_int v)"
  shows "(0 \<le> v \<and> v < 10 ^ 21 \<longrightarrow>
      (\<exists>res n.
        stock_route caller i body d = (Inr res, d\<lparr>products := set_stock i n (products d)\<rparr>) \<and>
        sr_newStock res = JNumber (of_int n) \<and>
        find (\<lambda>p. p_id p = i) (set_stock i n (products d)) = Some (p\<lparr>p_stock := n\<rparr>) \<and>
        n = (case sb_operation body of
               None \<Rightarrow> v
             | Some OpSet \<Rightarrow> v
             | Some OpAdd \<Rightarrow> p_stock p + v
             | Some OpSubtract \<Rightarrow> if v \<le> p_stock p then p_stock p - v else 0) \<and>
        (sb_operation body = Some OpAdd \<longrightarrow> 0 \<le> p_stock p \<longrightarrow> 0 \<le> n) \<and>
        (sb_operation body \<noteq> Some OpAdd \<longrightarrow> 0 \<le> n))) \<and>
     (v < 0 \<longrightarrow> stock_route caller i body d = (Inl ValidationError, d))"
proof -
  have f: "\<And>n. find (\<lambda>p. p_id p = i) (set_stock i n (products d)) = Some (p\<lparr>p_stock := n\<rparr>)"
    unfolding set_stock_def using assms(2) by (simp add: find_findOneAndUpdate)
  have "\<bar>real_of_int v\<bar> < 10 ^ 21 \<longleftrightarrow> \<bar>v\<bar> < 10 ^ 21"
    using of_int_less_iff[where ?'a = real, of "\<bar>v\<bar>" "10 ^ 21"] by simp
  hence valid: "isInt 0 (sb_stock body) \<longleftrightarrow> 0 \<le> v \<and> v < 10 ^ 21"
    by (auto simp: isInt_def assms(3))
  have bad: "v < 0 \<longrightarrow> stock_route caller i body d = (Inl ValidationError, d)"
    using assms(1) valid by (simp add: stock_route_def)
  have sub: "max 0 (real_of_int (p_stock p) - real_of_int v) =
      of_int (if v \<le> p_stock p then p_stock p - v else 0)"
    by simp
  have good: "\<exists>res n.
        stock_route caller i body d = (Inr res, d\<lparr>products := set_stock i n (products d)\<rparr>) \<and>
        sr_newStock res = JNumber (of_int n) \<and>
        find (\<lambda>p. p_id p = i) (set_stock i n (products d)) = Some (p\<lparr>p_stock := n\<rparr>) \<and>
        n = (case sb_operation body of
               None \<Rightarrow> v
             | Some OpSet \<Rightarrow> v
             | Some OpAdd \<Rightarrow> p_stock p + v
             | Some OpSubtract \<Rightarrow> if v \<le> p_stock p then p_stock p - v else 0) \<and>
        (sb_operation body = Some OpAdd \<longrightarrow> 0 \<le> p_stock p \<longrightarrow> 0 \<le> n) \<and>
        (sb_operation body \<noteq> Some OpAdd \<longrightarrow> 0 \<le> n)"
    if v: "0 \<le> v" "v < 10 ^ 21"
  proof (cases "sb_operation body")
    case None
    with assms valid v f show ?thesis
      by (simp add: stock_route_def Let_def cast_number_def)
  next
    case (Some operation)
    show ?thesis
    proof (cases operation)
      case OpSet
      with Some assms valid v f show ?thesis
        by (simp add: stock_route_def Let_def cast_number_def)
    next
      case OpAdd
      with Some assms valid v f show ?thesis
        by (simp add: stock_route_def Let_def cast_number_def js_plus_def)
    next
      case OpSubtract
      with Some assms valid v f show ?thesis
        by (simp add: stock_route_def Let_def cast_number_def js_minus_def to_number_def sub
            del: of_int_diff)
    qed
  qed
  from good bad show ?thesis by blast
qed

lemma stock_route_number_examples:
  "(\<exists>res. stock_route carol ''apple'' \<lparr>sb_stock = JNumber 8, sb_operation = Some OpSubtract\<rparr> db0 =
      (Inr res, db0\<lparr>products := [apple\<lparr>p_stock := 0\<rparr>, pear, kiwi]\<rparr>) \<and>
      sr_previousStock res = 5 \<and> sr_newStock res = JNumber 0) \<and>
   (\<exists>res. stock_route carol ''apple'' \<lparr>sb_stock = JNumber 8, sb_operation = Some OpAdd\<rparr> db0 =
      (Inr res, db0\<lparr>products := [apple\<lparr>p_stock := 13\<rparr>, pear, kiwi]\<rparr>) \<and>
      sr_newStock res = JNumber 13) \<and>
   (\<exists>res. stock_route carol ''apple'' \<lparr>sb_stock = JNumber 8, sb_operation = None\<rparr> db0 =
      (Inr res, db0\<lparr>products := [apple\<lparr>p_stock := 8\<rparr>, pear, kiwi]\<rparr>) \<and>
      sr_newStock res = JNumber 8) \<and>
   stock_route carol ''apple'' \<lparr>sb_stock = JNumber (- 1), sb_operation = Some OpSet\<rparr> db0 =
     (Inl ValidationError, db0)"
  by (simp add: stock_route_def admin_def set_stock_def updated_doc_def example_docs js_eval)

text \<open>
  C7. The statement holds for a \<open>stock\<close> that arrives as a number, and for \<open>set\<close> and
  \<open>subtract\<close> also when it arrives as the text of a number, which the validator lets
  through unconverted. For \<open>add\<close> it does not: \<open>product.stock + stock\<close> then joins two
  texts. With a stock of 5 and the request \<open>{ stock: "8", operation: "add" }\<close>, which
  passes the validator, the route answers with the new stock \<open>"58"\<close> and stores 58, where
  adding the given amount gives 13; \<open>subtract\<close> and \<open>set\<close> with the same text store 0
  and 8.
\<close>

theorem stock_route_add_joins_text:
  "isInt 0 (JString (ascii ''8'')) \<and>
   find (\<lambda>p. p_id p = ''apple'') (products db0) = Some apple \<and> p_stock apple = 5 \<and>
   stock_route carol ''apple'' \<lparr>sb_stock = JString (ascii ''8''), sb_operation = Some OpAdd\<rparr> db0 =
     (Inr \<lparr>sr_product = Some (apple\<lparr>p_stock := 58\<rparr>), sr_previousStock = 5,
           sr_newStock = JString (ascii ''58''), sr_operation = OpAdd\<rparr>,
      db0\<lparr>products := [apple\<lparr>p_stock := 58\<rparr>, pear, kiwi]\<rparr>) \<and>
   snd (stock_route carol ''apple''
          \<lparr>sb_stock = JString (ascii ''8''), sb_operation = Some OpSubtract\<rparr> db0) =
     db0\<lparr>products := [apple\<lparr>p_stock := 0\<rparr>, pear, kiwi]\<rparr> \<and>
   snd (stock_route carol ''apple''
          \<lparr>sb_stock = JString (ascii ''8''), sb_operation = Some OpSet\<rparr> db0) =
     db0\<lparr>products := [apple\<lparr>p_stock := 8\<rparr>, pear, kiwi]\<rparr>"
  by (simp add: stock_route_def admin_def set_stock_def updated_doc_def example_docs js_eval
      digits_of.simps)

section \<open>Order creation properties\<close>

lemma productMap_Some:
  "productMap ps k = Some p \<Longrightarrow> p \<in> set ps \<and> p_id p = k"
  unfolding productMap_def by (auto dest!: map_of_SomeD)

lemma productMap_None: "productMap ps k = None \<longleftrightarrow> k \<notin> p_id ` set ps"
  unfolding productMap_def by (simp add: map_of_eq_None_iff image_image)

text \<open>What the loop has done when it ends without an error.\<close>

lemma process_items_Inr:
  assumes "process_items pm items acc sub = Inr (ois, st)"
  shows "\<exists>new. ois = acc @ new \<and>
           list_all2 (\<lambda>item oi. \<exists>p. pm (ri_product item) = Some p \<and>
               ri_quantity item \<le> p_stock p \<and>
               oi = \<lparr>oi_product = p_id p, oi_quantity = ri_quantity item,
                      oi_price = p_price p,
                      oi_total = p_price p * of_int (ri_quantity item)\<rparr>) items new \<and>
           st = sub + sum_list (map oi_total new)"
  using assms
proof (induction items arbitrary: acc sub)
  case Nil
  then show ?case by simp
next
  case (Cons item items)
  from Cons.prems obtain p where p: "pm (ri_product item) = Some p"
    by (auto split: option.splits)
  with Cons.prems have le: "ri_quantity item \<le> p_stock p"
    by (auto split: if_splits)
  let ?oi = "\<lparr>oi_product = p_id p, oi_quantity = ri_quantity item, oi_price = p_price p,
              oi_total = p_price p * of_int (ri_quantity item)\<rparr>"
  from Cons.prems p le
  have "process_items pm items (acc @ [?oi]) (sub + p_price p * of_int (ri_quantity item)) =
      Inr (ois, st)"
    by (simp add: Let_def)
  from Cons.IH[OF this] obtain new where new: "ois = (acc @ [?oi]) @ new"
    "list_all2 (\<lambda>item oi. \<exists>p. pm (ri_product item) = Some p \<and>
               ri_quantity item \<le> p_stock p \<and>
               oi = \<lparr>oi_product = p_id p, oi_quantity = ri_quantity item,
                      oi_price = p_price p,
                      oi_total = p_price p * of_int (ri_quantity item)\<rparr>) items new"
    "st = sub + p_price p * of_int (ri_quantity item) + sum_list (map oi_total new)"
    by blast
  show ?case
    by (rule exI[of _ "?oi # new"]) (use new p le in simp)
qed

text \<open>The loop stops at the first item that asks for more than the stock.\<close>

lemma process_items_short:
  assumes "find (\<lambda>item. \<exists>p. pm (ri_product item) = Some p \<and> p_stock p < ri_quantity item) items
             = Some item"
      and "pm (ri_product item) = Some p"
      and "\<forall>it\<in>set items. pm (ri_product it) \<noteq> None"
  shows "process_items pm items acc sub =
           Inl (InsufficientStock (p_name p) (p_stock p) (ri_quantity item))"
  using assms
proof (induction items arbitrary: acc sub)
  case Nil
  then show ?case by simp
next
  case (Cons x xs)
  from Cons.prems(3) obtain px where px: "pm (ri_product x) = Some px" by auto
  show ?case
  proof (cases "p_stock px < ri_quantity x")
    case True
    with px Cons.prems(1) have "x = item" by simp
    with px Cons.prems(2) True show ?thesis by simp
  next
    case False
    with px Cons.prems(1)
    have "find (\<lambda>item. \<exists>p. pm (ri_product item) = Some p \<and> p_stock p < ri_quantity item) xs
            = Some item"
      by simp
    from Cons.IH[OF this Cons.prems(2)] Cons.prems(3) px False show ?thesis
      by (simp add: Let_def)
  qed
qed

lemma process_items_some_short:
  assumes "item \<in> set items"
      and "pm (ri_product item) = Some p" and "p_stock p < ri_quantity item"
  shows "\<exists>e. process_items pm items acc sub = Inl e"
  using assms
proof (induction items arbitrary: acc sub)
  case Nil
  then show ?case by simp
next
  case (Cons x xs)
  show ?case
  proof (cases "x = item")
    case True
    with Cons.prems show ?thesis by simp
  next
    case False
    with Cons.prems have "item \<in> set xs" by simp
    from Cons.IH[OF this Cons.prems(2,3)] show ?thesis
      by (auto simp: Let_def split: option.splits)
  qed
qed

text \<open>Every answer with an error leaves the database as it was.\<close>

lemma create_order_Inl_unchanged:
  "create_order caller body newId now d = (Inl e, d') \<Longrightarrow> d' = d"
  by (auto simp: create_order_def Let_def
      split: if_splits sum.splits prod.splits option.splits)

lemma create_order_Inr:
  assumes "create_order caller body newId now d = (Inr ord, d')"
  shows "orderBody_valid body \<and>
     (\<exists>orderItems subtotal taxStored shippingStored totalStored.
        length (filter (\<lambda>p. p_id p \<in> set (map ri_product (b_items body)) \<and> p_isActive p)
                  (products d)) = length (b_items body) \<and>
        process_items
          (productMap (filter (\<lambda>p. p_id p \<in> set (map ri_product (b_items body)) \<and> p_isActive p)
                         (products d)))
          (b_items body) [] 0 = Inr (orderItems, subtotal) \<and>
        Order_numbers (taxAmount_of subtotal (taxRate_of body)) (shippingCost_of body)
          (totalAmount_of subtotal (taxAmount_of subtotal (taxRate_of body))
             (shippingCost_of body)) = Some (taxStored, shippingStored, totalStored) \<and>
        ord = Order_create newId now (u_id caller) orderItems (b_shippingAddress body)
                (case b_billingAddress body of None \<Rightarrow> b_shippingAddress body | Some a \<Rightarrow> a)
                subtotal taxStored shippingStored totalStored (b_notes body) \<and>
        d' = d\<lparr>orders := orders d @ [ord],
               products := reserve_stock (b_items body) (products d)\<rparr>)"
proof -
  let ?found = "filter (\<lambda>p. p_id p \<in> set (map ri_product (b_items body)) \<and> p_isActive p)
                  (products d)"
  from assms have valid: "orderBody_valid body"
    by (auto simp: create_order_def split: if_splits)
  from assms valid have len: "length ?found = length (b_items body)"
    by (auto simp: create_order_def Let_def split: if_splits)
  from assms valid len obtain orderItems subtotal where
    run: "process_items (productMap ?found) (b_items body) [] 0 = Inr (orderItems, subtotal)"
    by (cases "process_items (productMap ?found) (b_items body) [] 0")
       (auto simp: create_order_def Let_def)
  let ?tax = "taxAmount_of subtotal (taxRate_of body)"
  let ?total = "totalAmount_of subtotal ?tax (shippingCost_of body)"
  from assms valid len run obtain taxStored shippingStored totalStored where
    nums: "Order_numbers ?tax (shippingCost_of body) ?total =
             Some (taxStored, shippingStored, totalStored)"
    by (cases "Order_numbers ?tax (shippingCost_of body) ?total")
       (auto simp: create_order_def Let_def)
  from assms valid len run nums have
    "ord = Order_create newId now (u_id caller) orderItems (b_shippingAddress body)
             (case b_billingAddress body of None \<Rightarrow> b_shippingAddress body | Some a \<Rightarrow> a)
             subtotal taxStored shippingStored totalStored (b_notes body)"
    "d' = d\<lparr>orders := orders d @ [ord],
            products := reserve_stock (b_items body) (products d)\<rparr>"
    by (auto simp: create_order_def Let_def)
  with valid len run nums show ?thesis by blast
qed

lemma find_by_id_unique:
  assumes "distinct (map f xs)" and "x \<in> set xs"
  shows "find (\<lambda>y. f y = f x) xs = Some x"
  using assms by (induction xs) (auto simp: image_iff)

lemma same_id_same_doc:
  "distinct (map f xs) \<Longrightarrow> x \<in> set xs \<Longrightarrow> y \<in> set xs \<Longrightarrow> f x = f y \<Longrightarrow> x = y"
  by (meson distinct_map inj_on_def)

text \<open>
  When the ids of the collection are unique, the query finds as many products as the
  request has items exactly when the items name pairwise different products that all
  exist and are active.
\<close>

lemma found_ids:
  assumes d: "distinct (map p_id ps)"
      and len: "length (filter (\<lambda>p. p_id p \<in> set ids \<and> p_isActive p) ps) = length ids"
  shows "p_id ` set (filter (\<lambda>p. p_id p \<in> set ids \<and> p_isActive p) ps) = set ids"
proof -
  let ?found = "filter (\<lambda>p. p_id p \<in> set ids \<and> p_isActive p) ps"
  have df: "distinct (map p_id ?found)" using d by (rule distinct_map_filter)
  have sub: "p_id ` set ?found \<subseteq> set ids" by auto
  have c: "card (p_id ` set ?found) = length ?found"
    using distinct_card[OF df] by (simp only: set_map length_map)
  have "card (set ids) \<le> length ids" by (rule card_length)
  with len c have "card (set ids) \<le> card (p_id ` set ?found)" by (simp only:)
  with sub show ?thesis by (intro card_seteq) simp_all
qed

lemma found_all:
  assumes d: "distinct (map p_id ps)" and di: "distinct ids"
      and ex: "\<forall>k\<in>set ids. \<exists>p\<in>set ps. p_id p = k \<and> p_isActive p"
  shows "length (filter (\<lambda>p. p_id p \<in> set ids \<and> p_isActive p) ps) = length ids"
proof -
  let ?found = "filter (\<lambda>p. p_id p \<in> set ids \<and> p_isActive p) ps"
  have df: "distinct (map p_id ?found)" using d by (rule distinct_map_filter)
  have c: "card (p_id ` set ?found) = length ?found"
    using distinct_card[OF df] by (simp only: set_map length_map)
  have "p_id ` set ?found = set ids" using ex by (auto simp: image_iff)
  with c have "length ?found = card (set ids)" by (simp only:)
  also have "\<dots> = length ids" using di by (rule distinct_card)
  finally show ?thesis .
qed

lemma productMap_found:
  assumes d: "distinct (map p_id ps)"
      and len: "length (filter (\<lambda>p. p_id p \<in> set ids \<and> p_isActive p) ps) = length ids"
      and k: "k \<in> set ids"
  shows "\<exists>p. productMap (filter (\<lambda>p. p_id p \<in> set ids \<and> p_isActive p) ps) k = Some p \<and>
           p \<in> set ps \<and> p_id p = k \<and> p_isActive p \<and>
           find (\<lambda>q. p_id q = k) ps = Some p"
proof -
  let ?found = "filter (\<lambda>p. p_id p \<in> set ids \<and> p_isActive p) ps"
  from found_ids[OF d len] k have "k \<in> p_id ` set ?found" by simp
  then obtain p where p: "productMap ?found k = Some p"
    using productMap_None[of ?found k] by (cases "productMap ?found k") auto
  from productMap_Some[OF p] have in_f: "p \<in> set ?found" and id: "p_id p = k" by blast+
  from in_f have in_ps: "p \<in> set ps" and act: "p_isActive p" by simp_all
  from find_by_id_unique[OF d in_ps] id
  have "find (\<lambda>q. p_id q = k) ps = Some p" by simp
  with p in_ps act id show ?thesis by blast
qed

lemma create_order_invalid:
  "\<not> orderBody_valid body \<Longrightarrow>
     create_order caller body newId now d = (Inl ValidationError, d)"
  by (simp add: create_order_def)

lemma create_order_unavailable:
  "orderBody_valid body \<Longrightarrow>
   length (filter (\<lambda>p. p_id p \<in> set (map ri_product (b_items body)) \<and> p_isActive p)
             (products d)) \<noteq> length (map ri_product (b_items body)) \<Longrightarrow>
     create_order caller body newId now d = (Inl ProductsUnavailable, d)"
  by (simp add: create_order_def Let_def)

lemma create_order_stopped:
  "orderBody_valid body \<Longrightarrow>
   length (filter (\<lambda>p. p_id p \<in> set (map ri_product (b_items body)) \<and> p_isActive p)
             (products d)) = length (map ri_product (b_items body)) \<Longrightarrow>
   process_items
     (productMap (filter (\<lambda>p. p_id p \<in> set (map ri_product (b_items body)) \<and> p_isActive p)
                    (products d)))
     (b_items body) [] 0 = Inl e \<Longrightarrow>
     create_order caller body newId now d = (Inl e, d)"
  by (simp add: create_order_def Let_def)

text \<open>The handler on the example documents.\<close>

lemma addr0_valid: "address_valid addr0"
  by (simp add: address_valid_def notEmpty_def trim_def is_space_def addr0_def ascii_def)

lemma body_ok_valid: "orderBody_valid body_ok"
  by (simp add: orderBody_valid_def addr0_valid body_ok_def)

lemma create_order_ok: "create_order alice body_ok ''o1'' 100 db0 = (Inr order1, db1)"
  using body_ok_valid
  by (simp add: create_order_def body_ok_def example_docs order1_def db1_def
      productMap_def reserve_stock_def inc_stock_def Order_create_def Let_def
      taxRate_of_def shippingCost_of_def taxAmount_of_def totalAmount_of_def
      Order_numbers_def js_times_def js_plus_def to_number_def cast_number_def)

lemma create_order_unavailable_ex:
  "create_order alice body_unavailable ''o1'' 100 db0 = (Inl ProductsUnavailable, db0)"
  using addr0_valid
  by (simp add: create_order_def body_unavailable_def body_ok_def orderBody_valid_def
      example_docs)

lemma create_order_short_ex:
  "create_order alice body_short ''o1'' 100 db0 = (Inl (InsufficientStock ''Pear'' 10 1000), db0)"
  using addr0_valid
  by (simp add: create_order_def body_short_def body_ok_def orderBody_valid_def
      example_docs productMap_def)

text \<open>
  In a catalog whose product ids are unique, a request in which some item asks for more
  than the stock of its product always fails, and the database is as it was: no stock
  is changed and no order is created. When the request passes the validators and its
  items name pairwise different products that all exist and are active, the failure is
  \<open>InsufficientStock\<close> with the name and the stock of the product of the first such item
  in request order, and the quantity that item asks for.
\<close>

lemma create_order_short_stock:
  assumes ids: "distinct (map p_id (products d))"
      and item: "item \<in> set (b_items body)"
      and p: "p \<in> set (products d)" "p_id p = ri_product item" "p_stock p < ri_quantity item"
  shows "(\<exists>e. create_order caller body newId now d = (Inl e, d)) \<and>
     (orderBody_valid body \<and> distinct (map ri_product (b_items body)) \<and>
      (\<forall>it\<in>set (b_items body). \<exists>q\<in>set (products d). p_id q = ri_product it \<and> p_isActive q) \<longrightarrow>
      (\<exists>it q.
          find (\<lambda>it. \<exists>q\<in>set (products d). p_id q = ri_product it \<and> p_stock q < ri_quantity it)
            (b_items body) = Some it \<and>
          find (\<lambda>q. p_id q = ri_product it) (products d) = Some q \<and>
          create_order caller body newId now d =
            (Inl (InsufficientStock (p_name q) (p_stock q) (ri_quantity it)), d)))"
proof -
  let ?items = "b_items body"
  let ?ids = "map ri_product ?items"
  let ?found = "filter (\<lambda>p. p_id p \<in> set ?ids \<and> p_isActive p) (products d)"
  let ?pm = "productMap ?found"
  let ?short = "\<lambda>it. \<exists>q\<in>set (products d). p_id q = ri_product it \<and> p_stock q < ri_quantity it"
  have lookup: "\<exists>q. ?pm (ri_product it) = Some q \<and> q \<in> set (products d) \<and>
        p_id q = ri_product it \<and> find (\<lambda>q. p_id q = ri_product it) (products d) = Some q"
    if "length ?found = length ?ids" "it \<in> set ?items" for it
    using productMap_found[OF ids that(1), of "ri_product it"] that(2) by auto
  have short_iff: "(\<exists>q. ?pm (ri_product it) = Some q \<and> p_stock q < ri_quantity it) \<longleftrightarrow> ?short it"
    if "length ?found = length ?ids" "it \<in> set ?items" for it
  proof -
    from lookup[OF that] obtain q where q: "?pm (ri_product it) = Some q"
      "q \<in> set (products d)" "p_id q = ri_product it" by blast
    have uniq: "q' = q" if "q' \<in> set (products d)" "p_id q' = ri_product it" for q'
      using same_id_same_doc[OF ids that(1) q(2)] that(2) q(3) by simp
    show ?thesis
    proof
      assume "\<exists>q. ?pm (ri_product it) = Some q \<and> p_stock q < ri_quantity it"
      with q(1) have "p_stock q < ri_quantity it" by auto
      with q(2,3) show "?short it" by blast
    next
      assume "?short it"
      then obtain q' where q': "q' \<in> set (products d)" "p_id q' = ri_product it"
        "p_stock q' < ri_quantity it" by blast
      from uniq[OF q'(1,2)] q'(3) q(1)
      show "\<exists>q. ?pm (ri_product it) = Some q \<and> p_stock q < ri_quantity it" by blast
    qed
  qed
  have part1: "\<exists>e. create_order caller body newId now d = (Inl e, d)"
  proof (cases "orderBody_valid body")
    case False
    from create_order_invalid[OF this] show ?thesis by blast
  next
    case valid: True
    show ?thesis
    proof (cases "length ?found = length ?ids")
      case False
      from create_order_unavailable[OF valid this] show ?thesis by blast
    next
      case len: True
      from item p have "?short item" by blast
      with short_iff[OF len item] obtain q where
        "?pm (ri_product item) = Some q" "p_stock q < ri_quantity item" by blast
      from process_items_some_short[where pm="?pm" and acc="[]" and sub=0, OF item this]
      obtain e where
        "process_items ?pm ?items [] 0 = Inl e" by blast
      from create_order_stopped[OF valid len this] show ?thesis by blast
    qed
  qed
  have part2: "\<exists>it q. find ?short ?items = Some it \<and>
          find (\<lambda>q. p_id q = ri_product it) (products d) = Some q \<and>
          create_order caller body newId now d =
            (Inl (InsufficientStock (p_name q) (p_stock q) (ri_quantity it)), d)"
    if valid: "orderBody_valid body" and di: "distinct ?ids"
      and ex: "\<forall>it\<in>set ?items. \<exists>q\<in>set (products d). p_id q = ri_product it \<and> p_isActive q"
  proof -
    from ex have "\<forall>k\<in>set ?ids. \<exists>p\<in>set (products d). p_id p = k \<and> p_isActive p" by auto
    from found_all[OF ids di this] have len: "length ?found = length ?ids" .
    from item p have "?short item" by blast
    with item obtain it where it: "find ?short ?items = Some it"
      by (cases "find ?short ?items") (auto simp: find_None_iff)
    then have it_in: "it \<in> set ?items" by (auto simp: find_Some_iff)
    from lookup[OF len it_in] obtain q where q: "?pm (ri_product it) = Some q"
      "find (\<lambda>q. p_id q = ri_product it) (products d) = Some q" by blast
    have "find (\<lambda>it. \<exists>q. ?pm (ri_product it) = Some q \<and> p_stock q < ri_quantity it) ?items =
        find ?short ?items"
      by (rule find_cong[OF refl]) (use short_iff[OF len] in blast)
    with it have f: "find (\<lambda>it. \<exists>q. ?pm (ri_product it) = Some q \<and> p_stock q < ri_quantity it)
        ?items = Some it" by simp
    have all: "\<forall>it\<in>set ?items. ?pm (ri_product it) \<noteq> None"
      using lookup[OF len] by auto
    from create_order_stopped[OF valid len
        process_items_short[where pm="?pm" and acc="[]" and sub=0, OF f q(1) all]]
    have "create_order caller body newId now d =
            (Inl (InsufficientStock (p_name q) (p_stock q) (ri_quantity it)), d)" .
    with it q(2) show ?thesis by blast
  qed
  from part1 part2 show ?thesis by blast
qed

lemma create_order_short_stock_example:
  "distinct (map p_id (products db0)) \<and>
   orderBody_valid body_short \<and> distinct (map ri_product (b_items body_short)) \<and>
   find (\<lambda>it. \<exists>q\<in>set (products db0). p_id q = ri_product it \<and> p_stock q < ri_quantity it)
     (b_items body_short) = Some \<lparr>ri_product = ''pear'', ri_quantity = 1000\<rparr> \<and>
   find (\<lambda>q. p_id q = ''pear'') (products db0) = Some pear \<and>
   create_order alice body_short ''o1'' 100 db0 =
     (Inl (InsufficientStock ''Pear'' 10 1000), db0)"
proof -
  have h: "distinct (map p_id (products db0))"
    "\<lparr>ri_product = ''pear'', ri_quantity = 1000\<rparr> \<in> set (b_items body_short)"
    "pear \<in> set (products db0)"
    "p_id pear = ri_product \<lparr>ri_product = ''pear'', ri_quantity = 1000\<rparr>"
    "p_stock pear < ri_quantity \<lparr>ri_product = ''pear'', ri_quantity = 1000\<rparr>"
    by (simp_all add: example_docs body_short_def)
  have v: "orderBody_valid body_short"
    using addr0_valid by (simp add: orderBody_valid_def body_short_def body_ok_def)
  have di: "distinct (map ri_product (b_items body_short))"
    by (simp add: body_short_def)
  have f: "find (\<lambda>it. \<exists>q\<in>set (products db0). p_id q = ri_product it \<and> p_stock q < ri_quantity it)
     (b_items body_short) = Some \<lparr>ri_product = ''pear'', ri_quantity = 1000\<rparr>"
    "find (\<lambda>q. p_id q = ''pear'') (products db0) = Some pear"
    by (simp_all add: example_docs body_short_def)
  have ex: "\<forall>it\<in>set (b_items body_short).
      \<exists>q\<in>set (products db0). p_id q = ri_product it \<and> p_isActive q"
    by (simp add: example_docs body_short_def)
  from create_order_short_stock[OF h, of alice "''o1''" 100] v di ex f
  have "create_order alice body_short ''o1'' 100 db0 =
     (Inl (InsufficientStock ''Pear'' 10 1000), db0)"
    by (auto simp: pear_def)
  with h(1) v di f show ?thesis by simp
qed

text \<open>
  C1. A request in which some item asks for more than the stock of its product fails
  with \<open>InsufficientStock\<close>, naming the product, its stock and the quantity asked for,
  and changes nothing. The request below passes the validators; both of its items name
  the pear, which exists, is active and has a stock of 10, and the second asks for 1000.
  The handler counts the products it has found, one, against the items of the request,
  two, and answers that products are not available, before it looks at any stock. The
  database is as it was.
\<close>

theorem create_order_duplicate_product_unavailable:
  "orderBody_valid body_duplicate \<and>
   b_items body_duplicate = [\<lparr>ri_product = ''pear'', ri_quantity = 1\<rparr>,
                             \<lparr>ri_product = ''pear'', ri_quantity = 1000\<rparr>] \<and>
   find (\<lambda>p. p_id p = ''pear'') (products db0) = Some pear \<and>
   p_isActive pear \<and> p_name pear = ''Pear'' \<and> p_stock pear = 10 \<and>
   create_order alice body_duplicate ''o1'' 100 db0 = (Inl ProductsUnavailable, db0)"
  using addr0_valid
  by (simp add: create_order_def body_duplicate_def body_ok_def orderBody_valid_def
      example_docs)

text \<open>
  For every order that is created by a request whose tax rate and shipping cost are
  numbers or left out, each order line has the product and the
  quantity of its request item, the price of an active product of the catalog with
  that id as it is at this moment, and that price times the quantity as its total; the
  subtotal is the sum of the line totals; the tax amount is the subtotal times the tax
  rate, which is 0.08 when the request leaves it out; the shipping cost is 0 when the
  request leaves it out; and the total amount is subtotal plus tax amount plus shipping
  cost. The order is in the collection afterwards.
\<close>

lemma create_order_totals_numbers:
  assumes "create_order caller body newId now d = (Inr ord, d1)"
      and rate: "b_taxRate body = None \<or> b_taxRate body = Some (JNumber r)"
      and cost: "b_shippingCost body = None \<or> b_shippingCost body = Some (JNumber c)"
  shows "o_subtotal ord = sum_list (map oi_total (o_items ord)) \<and>
     list_all2 (\<lambda>item oi.
         oi_product oi = ri_product item \<and> oi_quantity oi = ri_quantity item \<and>
         oi_total oi = oi_price oi * of_int (oi_quantity oi) \<and>
         (\<exists>p\<in>set (products d). p_id p = ri_product item \<and> p_isActive p \<and>
            oi_price oi = p_price p))
       (b_items body) (o_items ord) \<and>
     o_taxAmount ord = o_subtotal ord * (if b_taxRate body = None then 0.08 else r) \<and>
     o_shippingCost ord = (if b_shippingCost body = None then 0 else c) \<and>
     o_totalAmount ord = o_subtotal ord + o_taxAmount ord + o_shippingCost ord \<and>
     ord \<in> set (orders d1)"
proof -
  let ?found = "filter (\<lambda>p. p_id p \<in> set (map ri_product (b_items body)) \<and> p_isActive p)
                  (products d)"
  let ?r = "if b_taxRate body = None then 0.08 else r"
  let ?c = "if b_shippingCost body = None then 0 else c"
  have rate': "taxRate_of body = JNumber ?r"
    using rate by (auto simp: taxRate_of_def)
  have cost': "shippingCost_of body = JNumber ?c"
    using cost by (auto simp: shippingCost_of_def)
  from create_order_Inr[OF assms(1)] obtain orderItems subtotal taxStored shippingStored
      totalStored where
    run: "process_items (productMap ?found) (b_items body) [] 0 = Inr (orderItems, subtotal)"
    and nums: "Order_numbers (taxAmount_of subtotal (taxRate_of body)) (shippingCost_of body)
          (totalAmount_of subtotal (taxAmount_of subtotal (taxRate_of body))
             (shippingCost_of body)) = Some (taxStored, shippingStored, totalStored)"
    and ord: "ord = Order_create newId now (u_id caller) orderItems (b_shippingAddress body)
                (case b_billingAddress body of None \<Rightarrow> b_shippingAddress body | Some a \<Rightarrow> a)
                subtotal taxStored shippingStored totalStored (b_notes body)"
    and d1: "d1 = d\<lparr>orders := orders d @ [ord],
               products := reserve_stock (b_items body) (products d)\<rparr>"
    by blast
  from nums have stored: "taxStored = subtotal * ?r" "shippingStored = ?c"
    "totalStored = subtotal + subtotal * ?r + ?c"
    unfolding rate' cost'
    by (simp_all add: Order_numbers_def taxAmount_of_def totalAmount_of_def js_times_def
        js_plus_def to_number_def cast_number_def)
  from process_items_Inr[OF run] have
    lines: "list_all2 (\<lambda>item oi. \<exists>p. productMap ?found (ri_product item) = Some p \<and>
               ri_quantity item \<le> p_stock p \<and>
               oi = \<lparr>oi_product = p_id p, oi_quantity = ri_quantity item,
                      oi_price = p_price p,
                      oi_total = p_price p * of_int (ri_quantity item)\<rparr>)
             (b_items body) orderItems"
    and sub: "subtotal = sum_list (map oi_total orderItems)"
    by auto
  have items: "o_items ord = orderItems" and st: "o_subtotal ord = subtotal"
    and tax: "o_taxAmount ord = subtotal * ?r"
    and ship: "o_shippingCost ord = ?c"
    and tot: "o_totalAmount ord = subtotal + subtotal * ?r + ?c"
    unfolding ord Order_create_def stored by simp_all
  have "list_all2 (\<lambda>item oi.
         oi_product oi = ri_product item \<and> oi_quantity oi = ri_quantity item \<and>
         oi_total oi = oi_price oi * of_int (oi_quantity oi) \<and>
         (\<exists>p\<in>set (products d). p_id p = ri_product item \<and> p_isActive p \<and>
            oi_price oi = p_price p))
       (b_items body) orderItems"
    using lines
  proof (rule list_all2_mono)
    fix item oi
    assume "\<exists>p. productMap ?found (ri_product item) = Some p \<and>
               ri_quantity item \<le> p_stock p \<and>
               oi = \<lparr>oi_product = p_id p, oi_quantity = ri_quantity item,
                      oi_price = p_price p,
                      oi_total = p_price p * of_int (ri_quantity item)\<rparr>"
    then obtain p where p: "productMap ?found (ri_product item) = Some p"
      and oi: "oi = \<lparr>oi_product = p_id p, oi_quantity = ri_quantity item,
                      oi_price = p_price p,
                      oi_total = p_price p * of_int (ri_quantity item)\<rparr>"
      by blast
    from productMap_Some[OF p] have "p \<in> set (products d)" "p_isActive p"
      "p_id p = ri_product item" by simp_all
    with oi show "oi_product oi = ri_product item \<and> oi_quantity oi = ri_quantity item \<and>
         oi_total oi = oi_price oi * of_int (oi_quantity oi) \<and>
         (\<exists>p\<in>set (products d). p_id p = ri_product item \<and> p_isActive p \<and>
            oi_price oi = p_price p)"
      by auto
  qed
  moreover have "ord \<in> set (orders d1)" unfolding d1 by simp
  ultimately show ?thesis
    unfolding items st tax ship tot using sub by simp
qed

lemma create_order_totals_example:
  "create_order alice body_ok ''o1'' 100 db0 = (Inr order1, db1) \<and>
   o_items order1 =
     [\<lparr>oi_product = ''apple'', oi_quantity = 2, oi_price = 2, oi_total = 4\<rparr>,
      \<lparr>oi_product = ''pear'', oi_quantity = 1, oi_price = 3, oi_total = 3\<rparr>] \<and>
   o_subtotal order1 = 4 + 3 \<and> o_taxAmount order1 = 7 * 0.08 \<and>
   o_shippingCost order1 = 0 \<and> o_totalAmount order1 = 7 + 0.56 + 0 \<and>
   order1 \<in> set (orders db1)"
  using create_order_totals_numbers[OF create_order_ok, of 0 0] create_order_ok
  by (simp add: order1_def Order_create_def db1_def body_ok_def)


section \<open>Order status properties\<close>

lemma inc_stock_commute:
  "inc_stock i n (inc_stock j m ps) = inc_stock j m (inc_stock i n ps)"
  unfolding inc_stock_def by (induction ps) auto

lemma inc_stock_inverse: "inc_stock i n (inc_stock i (- n) ps) = ps"
  unfolding inc_stock_def by (induction ps) auto

lemma reserve_stock_Cons:
  "reserve_stock (item # items) ps =
     reserve_stock items (inc_stock (ri_product item) (- ri_quantity item) ps)"
  by (simp add: reserve_stock_def)

lemma restore_stock_Cons:
  "restore_stock (oi # ois) ps = restore_stock ois (inc_stock (oi_product oi) (oi_quantity oi) ps)"
  by (simp add: restore_stock_def)

lemma inc_stock_reserve_stock:
  "inc_stock i n (reserve_stock items ps) = reserve_stock items (inc_stock i n ps)"
proof (induction items arbitrary: ps)
  case Nil
  show ?case by (simp add: reserve_stock_def)
next
  case (Cons item items)
  show ?case
    unfolding reserve_stock_Cons Cons.IH
    by (simp only: inc_stock_commute[of i n])
qed

text \<open>Restoring the lines of an order undoes the reservation of the same lines.\<close>

lemma restore_reserve:
  assumes "list_all2 (\<lambda>item oi. oi_product oi = ri_product item \<and>
             oi_quantity oi = ri_quantity item) items ois"
  shows "restore_stock ois (reserve_stock items ps) = ps"
  using assms
proof (induction items ois arbitrary: ps rule: list_all2_induct)
  case Nil
  show ?case by (simp add: reserve_stock_def restore_stock_def)
next
  case (Cons item items oi ois)
  have "restore_stock (oi # ois) (reserve_stock (item # items) ps) =
      restore_stock ois (reserve_stock items
        (inc_stock (ri_product item) (ri_quantity item)
           (inc_stock (ri_product item) (- ri_quantity item) ps)))"
    unfolding reserve_stock_Cons restore_stock_Cons
    using Cons.hyps(1) by (simp add: inc_stock_reserve_stock)
  also have "\<dots> = ps"
    unfolding inc_stock_inverse by (rule Cons.IH)
  finally show ?case .
qed

lemma same_quantities:
  assumes "list_all2 (\<lambda>item oi. oi_product oi = ri_product item \<and>
             oi_quantity oi = ri_quantity item) items ois"
  shows "sum_list (map oi_quantity ois) = sum_list (map ri_quantity items)"
  using assms by (induction items ois rule: list_all2_induct) simp_all

lemma create_order_lines:
  assumes "create_order caller body newId now d = (Inr ord, d1)"
  shows "list_all2 (\<lambda>item oi. oi_product oi = ri_product item \<and>
             oi_quantity oi = ri_quantity item) (b_items body) (o_items ord) \<and>
     o_id ord = newId \<and> o_customer ord = u_id caller \<and> o_status ord = Pending \<and>
     d1 = d\<lparr>orders := orders d @ [ord],
            products := reserve_stock (b_items body) (products d)\<rparr>"
proof -
  let ?found = "filter (\<lambda>p. p_id p \<in> set (map ri_product (b_items body)) \<and> p_isActive p)
                  (products d)"
  from create_order_Inr[OF assms] obtain orderItems subtotal taxStored shippingStored
      totalStored where
    run: "process_items (productMap ?found) (b_items body) [] 0 = Inr (orderItems, subtotal)"
    and ord: "ord = Order_create newId now (u_id caller) orderItems (b_shippingAddress body)
                (case b_billingAddress body of None \<Rightarrow> b_shippingAddress body | Some a \<Rightarrow> a)
                subtotal taxStored shippingStored totalStored (b_notes body)"
    and d1: "d1 = d\<lparr>orders := orders d @ [ord],
               products := reserve_stock (b_items body) (products d)\<rparr>"
    by blast
  from process_items_Inr[OF run] have
    lines: "list_all2 (\<lambda>item oi. \<exists>p. productMap ?found (ri_product item) = Some p \<and>
               ri_quantity item \<le> p_stock p \<and>
               oi = \<lparr>oi_product = p_id p, oi_quantity = ri_quantity item,
                      oi_price = p_price p,
                      oi_total = p_price p * of_int (ri_quantity item)\<rparr>)
             (b_items body) orderItems"
    by auto
  have "list_all2 (\<lambda>item oi. oi_product oi = ri_product item \<and>
             oi_quantity oi = ri_quantity item) (b_items body) orderItems"
    using lines by (rule list_all2_mono) (auto dest: productMap_Some)
  moreover have "o_items ord = orderItems" "o_id ord = newId" "o_customer ord = u_id caller"
    "o_status ord = Pending"
    unfolding ord Order_create_def by simp_all
  ultimately show ?thesis using d1 by simp
qed

lemma find_fresh_append:
  assumes "\<forall>x\<in>set xs. \<not> P x" and "P y"
  shows "find P (xs @ [y]) = Some y"
  using assms by (induction xs) auto

lemma cancel_order_found:
  assumes "find (cancel_query c i) (orders d) = Some ord" and "o_status ord \<noteq> Cancelled"
  shows "cancel_order c i reason t d =
           (Inr (updated_doc (\<lambda>ord. o_id ord = i) (cancel_update reason t) (orders d)),
            d\<lparr>products := restore_stock (o_items ord) (products d),
              orders := findOneAndUpdate (\<lambda>ord. o_id ord = i) (cancel_update reason t)
                          (orders d)\<rparr>)"
  using assms by (simp add: cancel_order_def)

lemma update_status_found:
  assumes "admin a" and "find (\<lambda>ord. o_id ord = i) (orders d) = Some ord"
  shows "update_status a i sb t d =
           (Inr (updated_doc (\<lambda>ord. o_id ord = i) (updateData sb t) (orders d)),
            d\<lparr>products := (if st_status sb = Cancelled
                            then restore_stock (o_items ord) (products d) else products d),
              orders := findOneAndUpdate (\<lambda>ord. o_id ord = i) (updateData sb t) (orders d)\<rparr>)"
  using assms by (simp add: update_status_def Let_def)

lemma updateData_id [simp]: "o_id (updateData sb t ord) = o_id ord"
  and updateData_status [simp]: "o_status (updateData sb t ord) = st_status sb"
  and updateData_items [simp]: "o_items (updateData sb t ord) = o_items ord"
  and updateData_customer [simp]: "o_customer (updateData sb t ord) = o_customer ord"
  by (simp_all add: updateData_def set_cancelReason_def split: option.splits)

lemma cancel_update_id [simp]: "o_id (cancel_update r t ord) = o_id ord"
  and cancel_update_status [simp]: "o_status (cancel_update r t ord) = Cancelled"
  and cancel_update_items [simp]: "o_items (cancel_update r t ord) = o_items ord"
  by (simp_all add: cancel_update_def set_cancelReason_def split: option.splits)

text \<open>
  C3. When an order has been created under an id no other order has, the quantities of
  its lines sum to the quantities the request reserved, and restoring the lines of the
  order undoes the reservation on every stock state. So cancelling the order, by its
  customer or an admin through the cancel route or by an admin through the status
  route, succeeds, marks the order cancelled and leaves every product with the stock
  it had before the order was created. In any later state in which the order is stored
  with the same lines and is not yet cancelled, either route succeeds and adds to the
  stock exactly what the lines of the order say, that is, what creation reserved.
\<close>

theorem reserve_then_cancel_restores_stock:
  assumes create: "create_order caller body newId now d = (Inr ord, d1)"
      and fresh: "newId \<notin> o_id ` set (orders d)"
  shows "sum_list (map oi_quantity (o_items ord)) = sum_list (map ri_quantity (b_items body)) \<and>
     (\<forall>ps. restore_stock (o_items ord) (reserve_stock (b_items body) ps) = ps) \<and>
     products d1 = reserve_stock (b_items body) (products d) \<and>
     (u_role c = Admin \<or> u_id c = u_id caller \<longrightarrow>
        (\<exists>r d2. cancel_order c newId reason t d1 = (Inr r, d2) \<and> products d2 = products d \<and>
           map_option o_status (find (\<lambda>x. o_id x = newId) (orders d2)) = Some Cancelled)) \<and>
     (admin a \<and> st_status sb = Cancelled \<longrightarrow>
        (\<exists>r d2. update_status a newId sb t d1 = (Inr r, d2) \<and> products d2 = products d \<and>
           map_option o_status (find (\<lambda>x. o_id x = newId) (orders d2)) = Some Cancelled)) \<and>
     (find (cancel_query c newId) (orders d') = Some ord' \<and> o_items ord' = o_items ord \<and>
      o_status ord' \<noteq> Cancelled \<longrightarrow>
        (\<exists>r d2. cancel_order c newId reason t d' = (Inr r, d2) \<and>
           products d2 = restore_stock (o_items ord) (products d'))) \<and>
     (admin a \<and> st_status sb = Cancelled \<and>
      find (\<lambda>x. o_id x = newId) (orders d') = Some ord' \<and> o_items ord' = o_items ord \<longrightarrow>
        (\<exists>r d2. update_status a newId sb t d' = (Inr r, d2) \<and>
           products d2 = restore_stock (o_items ord) (products d')))"
proof -
  from create_order_lines[OF create] have
    lines: "list_all2 (\<lambda>item oi. oi_product oi = ri_product item \<and>
             oi_quantity oi = ri_quantity item) (b_items body) (o_items ord)"
    and ord: "o_id ord = newId" "o_customer ord = u_id caller" "o_status ord = Pending"
    and d1: "d1 = d\<lparr>orders := orders d @ [ord],
            products := reserve_stock (b_items body) (products d)\<rparr>"
    by simp_all
  have orders1: "orders d1 = orders d @ [ord]"
    and products1: "products d1 = reserve_stock (b_items body) (products d)"
    unfolding d1 by simp_all
  have undo: "restore_stock (o_items ord) (reserve_stock (b_items body) ps) = ps" for ps
    using lines by (rule restore_reserve)
  have none: "\<forall>x\<in>set (orders d). \<not> o_id x = newId" using fresh by auto
  have by_id: "find (\<lambda>x. o_id x = newId) (orders d1) = Some ord"
    unfolding orders1 using none ord(1) by (intro find_fresh_append) simp_all
  have cancel: "\<exists>r d2. cancel_order c newId reason t d1 = (Inr r, d2) \<and> products d2 = products d \<and>
        map_option o_status (find (\<lambda>x. o_id x = newId) (orders d2)) = Some Cancelled"
    if who: "u_role c = Admin \<or> u_id c = u_id caller"
  proof -
    have "\<forall>x\<in>set (orders d). \<not> cancel_query c newId x"
      using none by (simp add: cancel_query_def)
    moreover have "cancel_query c newId ord"
      using who ord by (auto simp: cancel_query_def)
    ultimately have "find (cancel_query c newId) (orders d1) = Some ord"
      unfolding orders1 by (rule find_fresh_append)
    from cancel_order_found[OF this, of reason t] ord(3)
    have "cancel_order c newId reason t d1 =
           (Inr (updated_doc (\<lambda>ord. o_id ord = newId) (cancel_update reason t) (orders d1)),
            d1\<lparr>products := restore_stock (o_items ord) (products d1),
              orders := findOneAndUpdate (\<lambda>ord. o_id ord = newId) (cancel_update reason t)
                          (orders d1)\<rparr>)"
      by simp
    moreover have "map_option o_status
        (find (\<lambda>x. o_id x = newId)
           (findOneAndUpdate (\<lambda>ord. o_id ord = newId) (cancel_update reason t) (orders d1))) =
        Some Cancelled"
      by (simp add: find_findOneAndUpdate by_id)
    ultimately show ?thesis by (simp add: products1 undo)
  qed
  have status: "\<exists>r d2. update_status a newId sb t d1 = (Inr r, d2) \<and> products d2 = products d \<and>
        map_option o_status (find (\<lambda>x. o_id x = newId) (orders d2)) = Some Cancelled"
    if a: "admin a \<and> st_status sb = Cancelled"
  proof -
    from a have adm: "admin a" and sb: "st_status sb = Cancelled" by simp_all
    have "map_option o_status
        (find (\<lambda>x. o_id x = newId)
           (findOneAndUpdate (\<lambda>ord. o_id ord = newId) (updateData sb t) (orders d1))) =
        Some Cancelled"
      by (simp add: find_findOneAndUpdate by_id sb)
    with update_status_found[OF adm by_id, of sb t] sb show ?thesis
      by (simp add: products1 undo)
  qed
  have later_cancel: "\<exists>r d2. cancel_order c newId reason t d' = (Inr r, d2) \<and>
        products d2 = restore_stock (o_items ord) (products d')"
    if h: "find (cancel_query c newId) (orders d') = Some ord' \<and> o_items ord' = o_items ord \<and>
      o_status ord' \<noteq> Cancelled"
  proof -
    from h have f: "find (cancel_query c newId) (orders d') = Some ord'"
      and n: "o_status ord' \<noteq> Cancelled" and i: "o_items ord' = o_items ord" by simp_all
    from cancel_order_found[OF f n, of reason t] i show ?thesis by simp
  qed
  have later_status: "\<exists>r d2. update_status a newId sb t d' = (Inr r, d2) \<and>
        products d2 = restore_stock (o_items ord) (products d')"
    if h: "admin a \<and> st_status sb = Cancelled \<and>
      find (\<lambda>x. o_id x = newId) (orders d') = Some ord' \<and> o_items ord' = o_items ord"
  proof -
    from h have adm: "admin a" and sb: "st_status sb = Cancelled"
      and f: "find (\<lambda>x. o_id x = newId) (orders d') = Some ord'"
      and i: "o_items ord' = o_items ord" by simp_all
    from update_status_found[OF adm f, of sb t] sb i show ?thesis by simp
  qed
  have now: "sum_list (map oi_quantity (o_items ord)) = sum_list (map ri_quantity (b_items body)) \<and>
     (\<forall>ps. restore_stock (o_items ord) (reserve_stock (b_items body) ps) = ps) \<and>
     products d1 = reserve_stock (b_items body) (products d)"
    using same_quantities[OF lines] undo products1 by blast
  from cancel have c1: "u_role c = Admin \<or> u_id c = u_id caller \<longrightarrow>
        (\<exists>r d2. cancel_order c newId reason t d1 = (Inr r, d2) \<and> products d2 = products d \<and>
           map_option o_status (find (\<lambda>x. o_id x = newId) (orders d2)) = Some Cancelled)"
    by (rule impI)
  from status have c2: "admin a \<and> st_status sb = Cancelled \<longrightarrow>
        (\<exists>r d2. update_status a newId sb t d1 = (Inr r, d2) \<and> products d2 = products d \<and>
           map_option o_status (find (\<lambda>x. o_id x = newId) (orders d2)) = Some Cancelled)"
    by (rule impI)
  from later_cancel have c3: "find (cancel_query c newId) (orders d') = Some ord' \<and>
      o_items ord' = o_items ord \<and> o_status ord' \<noteq> Cancelled \<longrightarrow>
        (\<exists>r d2. cancel_order c newId reason t d' = (Inr r, d2) \<and>
           products d2 = restore_stock (o_items ord) (products d'))"
    by (rule impI)
  from later_status have c4: "admin a \<and> st_status sb = Cancelled \<and>
      find (\<lambda>x. o_id x = newId) (orders d') = Some ord' \<and> o_items ord' = o_items ord \<longrightarrow>
        (\<exists>r d2. update_status a newId sb t d' = (Inr r, d2) \<and>
           products d2 = restore_stock (o_items ord) (products d'))"
    by (rule impI)
  from now c1 c2 c3 c4 show ?thesis by (simp only: simp_thms)
qed

lemmas order_docs = order1_def Order_create_def db1_def order1_delivered_def
  order1_cancelled_def db1_delivered_def db1_cancelled_def to_status_def

lemmas route_eval = cancel_order_def cancel_query_def cancel_update_def update_status_def
  updateData_def set_cancelReason_def updated_doc_def restore_stock_def inc_stock_def admin_def get_order_def
  get_query_def

text \<open>The example states are states the handlers produce.\<close>

lemma example_states_reached:
  "create_order alice body_ok ''o1'' 100 db0 = (Inr order1, db1) \<and>
   update_status carol ''o1'' (to_status Delivered) 150 db1 =
     (Inr (Some order1_delivered), db1_delivered) \<and>
   cancel_order alice ''o1'' None 200 db1 = (Inr (Some order1_cancelled), db1_cancelled) \<and>
   snd (stock_route carol ''apple'' \<lparr>sb_stock = JNumber 10, sb_operation = Some OpAdd\<rparr> db1) =
     db1_restocked \<and>
   create_order bob body_ok ''o2'' 110 db1 = (Inr order2, db2)"
proof -
  have "create_order bob body_ok ''o2'' 110 db1 = (Inr order2, db2)"
    using body_ok_valid
    by (simp add: create_order_def body_ok_def example_docs order1_def db1_def db2_def
        order2_def productMap_def reserve_stock_def inc_stock_def Order_create_def Let_def
        taxRate_of_def shippingCost_of_def taxAmount_of_def totalAmount_of_def
        Order_numbers_def js_times_def js_plus_def to_number_def cast_number_def)
  moreover have "update_status carol ''o1'' (to_status Delivered) 150 db1 =
     (Inr (Some order1_delivered), db1_delivered)"
    "cancel_order alice ''o1'' None 200 db1 = (Inr (Some order1_cancelled), db1_cancelled)"
    by (simp_all add: route_eval order_docs carol_def alice_def example_docs)
  moreover have
    "snd (stock_route carol ''apple'' \<lparr>sb_stock = JNumber 10, sb_operation = Some OpAdd\<rparr> db1) =
     db1_restocked"
    by (simp add: stock_route_def admin_def set_stock_def db1_restocked_def db1_def
        example_docs js_eval)
  ultimately show ?thesis using create_order_ok by simp
qed

theorem reserve_then_cancel_restores_stock_witness:
  "create_order alice body_ok ''o1'' 100 db0 = (Inr order1, db1) \<and>
   ''o1'' \<notin> o_id ` set (orders db0) \<and>
   map p_stock (products db0) = [5, 10, 4] \<and>
   map p_stock (products db1) = [3, 9, 4] \<and>
   map p_stock (products (snd (cancel_order alice ''o1'' None 200 db1))) = [5, 10, 4] \<and>
   map p_stock (products (snd (update_status carol ''o1'' (to_status Cancelled) 200 db1))) =
     [5, 10, 4] \<and>
   sum_list (map oi_quantity (o_items order1)) = 3 \<and>
   find (cancel_query alice ''o1'') (orders db1_restocked) = Some order1 \<and>
   map p_stock (products db1_restocked) = [13, 9, 4] \<and>
   map p_stock (products (snd (cancel_order alice ''o1'' None 200 db1_restocked))) =
     [15, 10, 4] \<and>
   map p_stock
     (products (snd (update_status carol ''o1'' (to_status Cancelled) 200 db1_restocked))) =
     [15, 10, 4]"
proof -
  have fresh: "''o1'' \<notin> o_id ` set (orders db0)" by (simp add: db0_def)
  have later: "find (cancel_query alice ''o1'') (orders db1_restocked) = Some order1"
    "find (\<lambda>x. o_id x = ''o1'') (orders db1_restocked) = Some order1"
    "o_status order1 \<noteq> Cancelled"
    by (simp_all add: cancel_query_def db1_restocked_def order_docs alice_def)
  have who: "u_id alice = u_id alice" "admin carol \<and> st_status (to_status Cancelled) = Cancelled"
    by (simp_all add: admin_def carol_def to_status_def)
  from reserve_then_cancel_restores_stock[OF create_order_ok fresh,
      of alice None 200 carol "to_status Cancelled" db1_restocked order1] who later
  have "products (snd (cancel_order alice ''o1'' None 200 db1)) = products db0"
    "products (snd (update_status carol ''o1'' (to_status Cancelled) 200 db1)) = products db0"
    "sum_list (map oi_quantity (o_items order1)) = sum_list (map ri_quantity (b_items body_ok))"
    "products (snd (cancel_order alice ''o1'' None 200 db1_restocked)) =
       restore_stock (o_items order1) (products db1_restocked)"
    "products (snd (update_status carol ''o1'' (to_status Cancelled) 200 db1_restocked)) =
       restore_stock (o_items order1) (products db1_restocked)"
    by auto
  then show ?thesis
    using create_order_ok fresh later(1)
    by (simp add: example_docs db1_def body_ok_def db1_restocked_def order1_def
        Order_create_def restore_stock_def inc_stock_def)
qed

lemma only_doc_with_id:
  assumes "distinct (map f xs)" and "find (\<lambda>y. f y = i) xs = Some x" and "y \<in> set xs" and "f y = i"
  shows "y = x"
proof -
  from assms(2) have "x \<in> set xs" "f x = i" by (auto simp: find_Some_iff)
  with same_id_same_doc[OF assms(1) assms(3) this(1)] assms(4) show ?thesis by simp
qed

lemma find_None_I: "(\<And>x. x \<in> set xs \<Longrightarrow> \<not> P x) \<Longrightarrow> find P xs = None"
  by (auto simp: find_None_iff)

text \<open>
  C2 (as amended). The status route, for an admin and an order that exists, does not
  look at the current status: whatever the current and the requested status are, it
  succeeds and the order has the requested status afterwards. So the order pending,
  confirmed, processing, shipped, delivered is not enforced, a transition out of
  \<open>delivered\<close> or \<open>cancelled\<close> succeeds, and \<open>cancelled\<close> is reached from every other
  status. (The request to cancel an order that is already cancelled is left out of the
  statement.)
\<close>

theorem update_status_sets_any_status:
  assumes "admin a"
      and "find (\<lambda>x. o_id x = i) (orders d) = Some ord"
      and "\<not> (o_status ord = Cancelled \<and> st_status sb = Cancelled)"
  shows "\<exists>r d'. update_status a i sb t d = (Inr (Some r), d') \<and> o_status r = st_status sb \<and>
          find (\<lambda>x. o_id x = i) (orders d') = Some r"
proof -
  have "find (\<lambda>x. o_id x = i)
          (findOneAndUpdate (\<lambda>ord. o_id ord = i) (updateData sb t) (orders d)) =
        Some (updateData sb t ord)"
    by (simp add: find_findOneAndUpdate assms(2))
  with update_status_found[OF assms(1,2), of sb t] show ?thesis
    by (simp add: updated_doc_def assms(2))
qed

theorem update_status_sets_any_status_witness:
  "admin carol \<and> find (\<lambda>x. o_id x = ''o1'') (orders db1) = Some order1 \<and>
   o_status order1 = Pending \<and>
   update_status carol ''o1'' (to_status Shipped) 120 db1 =
     (Inr (Some (order1\<lparr>o_status := Shipped\<rparr>)), db1\<lparr>orders := [order1\<lparr>o_status := Shipped\<rparr>]\<rparr>) \<and>
   find (\<lambda>x. o_id x = ''o1'') (orders db1_cancelled) = Some order1_cancelled \<and>
   o_status order1_cancelled = Cancelled \<and>
   update_status carol ''o1'' (to_status Confirmed) 300 db1_cancelled =
     (Inr (Some (order1_cancelled\<lparr>o_status := Confirmed\<rparr>)),
      db1_cancelled\<lparr>orders := [order1_cancelled\<lparr>o_status := Confirmed\<rparr>]\<rparr>)"
proof -
  have a: "admin carol" by (simp add: admin_def carol_def)
  have f: "find (\<lambda>x. o_id x = ''o1'') (orders db1) = Some order1"
    "find (\<lambda>x. o_id x = ''o1'') (orders db1_cancelled) = Some order1_cancelled"
    by (simp_all add: order_docs)
  have s: "o_status order1 = Pending" "o_status order1_cancelled = Cancelled"
    by (simp_all add: order_docs)
  have n: "\<not> (o_status order1 = Cancelled \<and> st_status (to_status Shipped) = Cancelled)"
    "\<not> (o_status order1_cancelled = Cancelled \<and> st_status (to_status Confirmed) = Cancelled)"
    by (simp_all add: order_docs)
  show ?thesis
    using a f s update_status_sets_any_status[OF a f(1) n(1), of 120]
      update_status_sets_any_status[OF a f(2) n(2), of 300]
    by (simp add: route_eval order_docs carol_def)
qed

text \<open>
  A backward transition does not fail: for a delivered order the status route accepts
  \<open>processing\<close> and writes it.
\<close>

theorem update_status_backward_counterexample:
  "find (\<lambda>x. o_id x = ''o1'') (orders db1_delivered) = Some order1_delivered \<and>
   o_status order1_delivered = Delivered \<and>
   update_status carol ''o1'' (to_status Processing) 300 db1_delivered =
     (Inr (Some (order1_delivered\<lparr>o_status := Processing\<rparr>)),
      db1_delivered\<lparr>orders := [order1_delivered\<lparr>o_status := Processing\<rparr>]\<rparr>)"
  by (simp add: route_eval order_docs carol_def)

text \<open>
  C4 (as amended). In a collection with unique ids, the cancel route turns down every
  attempt to cancel an order that is already cancelled, and changes nothing: no stock
  is restored and no order is written. An admin is answered \<open>AlreadyCancelled\<close>; a
  caller who is not an admin is answered as for an order that is not there or not
  theirs to cancel, since such a caller only finds pending orders.
\<close>

theorem cancel_order_already_cancelled:
  assumes "distinct (map o_id (orders d))"
      and "find (\<lambda>x. o_id x = i) (orders d) = Some ord"
      and "o_status ord = Cancelled"
  shows "cancel_order c i reason t d =
           (Inl (if u_role c = Admin then AlreadyCancelled else OrderNotFoundOrNotCancellable), d)"
proof (cases "u_role c = Admin")
  case True
  then have "cancel_query c i = (\<lambda>x. o_id x = i)" by (auto simp: cancel_query_def)
  with assms(2,3) True show ?thesis by (simp add: cancel_order_def)
next
  case False
  have "find (cancel_query c i) (orders d) = None"
  proof (rule find_None_I)
    fix x assume "x \<in> set (orders d)"
    show "\<not> cancel_query c i x"
    proof
      assume q: "cancel_query c i x"
      then have "o_id x = i" by (simp add: cancel_query_def)
      from only_doc_with_id[OF assms(1,2) \<open>x \<in> set (orders d)\<close> this] have "x = ord" .
      with q False assms(3) show False by (simp add: cancel_query_def)
    qed
  qed
  with False show ?thesis by (simp add: cancel_order_def)
qed

theorem cancel_order_already_cancelled_witness:
  "distinct (map o_id (orders db1_cancelled)) \<and>
   find (\<lambda>x. o_id x = ''o1'') (orders db1_cancelled) = Some order1_cancelled \<and>
   o_status order1_cancelled = Cancelled \<and>
   cancel_order carol ''o1'' None 300 db1_cancelled = (Inl AlreadyCancelled, db1_cancelled) \<and>
   cancel_order bob ''o1'' None 300 db1_cancelled =
     (Inl OrderNotFoundOrNotCancellable, db1_cancelled)"
proof -
  have h: "distinct (map o_id (orders db1_cancelled))"
    "find (\<lambda>x. o_id x = ''o1'') (orders db1_cancelled) = Some order1_cancelled"
    "o_status order1_cancelled = Cancelled"
    by (simp_all add: order_docs)
  from cancel_order_already_cancelled[OF h, of carol None 300]
    cancel_order_already_cancelled[OF h, of bob None 300] h
  show ?thesis by (simp add: carol_def bob_def)
qed

text \<open>
  \<open>AlreadyCancelled\<close> is not the answer to every caller: the customer of the order, who
  is not an admin, is told that the order is not found or cannot be cancelled.
\<close>

theorem cancel_order_already_cancelled_counterexample:
  "o_status order1_cancelled = Cancelled \<and> o_customer order1_cancelled = u_id alice \<and>
   find (\<lambda>x. o_id x = ''o1'') (orders db1_cancelled) = Some order1_cancelled \<and>
   cancel_order alice ''o1'' None 300 db1_cancelled =
     (Inl OrderNotFoundOrNotCancellable, db1_cancelled)"
  by (simp add: route_eval order_docs alice_def)

text \<open>
  The status route has no such guard: asked to cancel an order that is already
  cancelled, it succeeds and adds the quantities of the order to the stock once more.
\<close>

lemma update_status_cancelled_again:
  "o_status order1_cancelled = Cancelled \<and>
   map p_stock (products db1_cancelled) = [5, 10, 4] \<and>
   (\<exists>r d'. update_status carol ''o1'' (to_status Cancelled) 300 db1_cancelled = (Inr r, d') \<and>
      map p_stock (products d') = [7, 11, 4])"
  by (simp add: route_eval order_docs carol_def example_docs)

section \<open>Who may cancel and read an order\<close>

text \<open>
  C9. For a caller who is not an admin, cancelling the order of another user (pending
  or not) is answered exactly as cancelling an order that does not exist: the same
  status and message, \<open>404 'Order not found or cannot be cancelled'\<close>, and an unchanged
  database. The same answer is given whenever no order with the id is both the
  caller's and pending, so it does not tell whether the order exists, is someone
  else's, or is not cancellable.
\<close>

theorem cancel_order_rejection_uniform:
  assumes "u_role c \<noteq> Admin"
  shows "(distinct (map o_id (orders d)) \<and> find (\<lambda>x. o_id x = i) (orders d) = Some ord \<and>
      o_customer ord \<noteq> u_id c \<and> j \<notin> o_id ` set (orders d) \<longrightarrow>
        cancel_order c i reason t d = (Inl OrderNotFoundOrNotCancellable, d) \<and>
        cancel_order c j reason t d = (Inl OrderNotFoundOrNotCancellable, d)) \<and>
     ((\<forall>x\<in>set (orders d). o_id x = k \<longrightarrow> o_customer x \<noteq> u_id c \<or> o_status x \<noteq> Pending) \<longrightarrow>
        cancel_order c k reason t d = (Inl OrderNotFoundOrNotCancellable, d))"
proof -
  have general: "cancel_order c k reason t d = (Inl OrderNotFoundOrNotCancellable, d)"
    if "\<forall>x\<in>set (orders d). o_id x = k \<longrightarrow> o_customer x \<noteq> u_id c \<or> o_status x \<noteq> Pending"
    for k
  proof -
    have "find (cancel_query c k) (orders d) = None"
      by (rule find_None_I) (use that assms in \<open>auto simp: cancel_query_def\<close>)
    then show ?thesis by (simp add: cancel_order_def)
  qed
  have other: "cancel_order c i reason t d = (Inl OrderNotFoundOrNotCancellable, d) \<and>
        cancel_order c j reason t d = (Inl OrderNotFoundOrNotCancellable, d)"
    if h: "distinct (map o_id (orders d)) \<and> find (\<lambda>x. o_id x = i) (orders d) = Some ord \<and>
      o_customer ord \<noteq> u_id c \<and> j \<notin> o_id ` set (orders d)"
  proof -
    have "\<forall>x\<in>set (orders d). o_id x = i \<longrightarrow> o_customer x \<noteq> u_id c \<or> o_status x \<noteq> Pending"
      using h only_doc_with_id[of o_id "orders d" i ord] by blast
    moreover have "\<forall>x\<in>set (orders d). o_id x = j \<longrightarrow> o_customer x \<noteq> u_id c \<or> o_status x \<noteq> Pending"
      using h by auto
    ultimately show ?thesis using general by blast
  qed
  from general other show ?thesis by blast
qed

theorem cancel_order_rejection_uniform_witness:
  "u_role bob \<noteq> Admin \<and> distinct (map o_id (orders db1)) \<and>
   find (\<lambda>x. o_id x = ''o1'') (orders db1) = Some order1 \<and>
   o_status order1 = Pending \<and> o_customer order1 \<noteq> u_id bob \<and>
   ''o2'' \<notin> o_id ` set (orders db1) \<and>
   cancel_order bob ''o1'' None 300 db1 = (Inl OrderNotFoundOrNotCancellable, db1) \<and>
   cancel_order bob ''o2'' None 300 db1 = (Inl OrderNotFoundOrNotCancellable, db1) \<and>
   cancel_order alice ''o1'' None 300 db1_delivered =
     (Inl OrderNotFoundOrNotCancellable, db1_delivered)"
proof -
  have b: "u_role bob \<noteq> Admin" and a: "u_role alice \<noteq> Admin"
    by (simp_all add: bob_def alice_def)
  have h: "distinct (map o_id (orders db1))"
    "find (\<lambda>x. o_id x = ''o1'') (orders db1) = Some order1"
    "o_status order1 = Pending" "o_customer order1 \<noteq> u_id bob"
    "''o2'' \<notin> o_id ` set (orders db1)"
    by (simp_all add: order_docs bob_def)
  have own: "\<forall>x\<in>set (orders db1_delivered). o_id x = ''o1'' \<longrightarrow>
      o_customer x \<noteq> u_id alice \<or> o_status x \<noteq> Pending"
    by (simp add: order_docs)
  from cancel_order_rejection_uniform[OF b, of db1 "''o1''" order1 "''o2''" None 300 "''o2''"]
    cancel_order_rejection_uniform[OF a, of db1_delivered "''o1''" order1 "''o2''" None 300 "''o1''"]
    h own b
  show ?thesis by simp
qed

lemma set_sort_orders: "set (sort_orders f ord xs) = set xs"
  by (simp add: sort_orders_def)

lemma page_subset: "set (if l then drop k xs else take n (drop k xs)) \<subseteq> set xs"
proof (cases l)
  case True
  then show ?thesis by (simp add: set_drop_subset)
next
  case False
  have "set (take n (drop k xs)) \<subseteq> set xs"
    by (rule subset_trans[OF set_take_subset set_drop_subset])
  with False show ?thesis by simp
qed

lemma list_orders_Inr:
  assumes "list_orders c q d = Inr r"
  shows "set (lr_orders r) \<subseteq> set (filter (list_filter c q) (orders d)) \<and>
         lr_totalItems r = length (filter (list_filter c q) (orders d))"
proof -
  let ?m = "filter (list_filter c q) (orders d)"
  let ?s = "sort_orders (case q_sortBy q of None \<Rightarrow> ''createdAt'' | Some f \<Rightarrow> f)
              (case q_sortOrder q of None \<Rightarrow> ''desc'' | Some x \<Rightarrow> x) ?m"
  let ?limit = "case q_limit q of None \<Rightarrow> 10 | Some n \<Rightarrow> n"
  let ?skipped = "((case q_page q of None \<Rightarrow> 1 | Some n \<Rightarrow> n) - 1) * ?limit"
  have ok: "\<not> ?skipped < 0"
  proof
    assume "?skipped < 0"
    then have "list_orders c q d = Inl ServerError"
      unfolding list_orders_def Let_def by (simp only: if_True)
    with assms show False by simp
  qed
  have "list_orders c q d =
      Inr \<lparr>lr_orders = (if ?limit = 0 then drop (nat ?skipped) ?s
                         else take (nat \<bar>?limit\<bar>) (drop (nat ?skipped) ?s)),
           lr_currentPage = (case q_page q of None \<Rightarrow> 1 | Some n \<Rightarrow> n),
           lr_totalPages =
             (if ?limit = 0 then None else Some \<lceil>real (length ?m) / real_of_int ?limit\<rceil>),
           lr_totalItems = length ?m,
           lr_itemsPerPage = ?limit\<rparr>"
    unfolding list_orders_def Let_def using ok by (simp only: if_False)
  with assms have "r =
      \<lparr>lr_orders = (if ?limit = 0 then drop (nat ?skipped) ?s
                     else take (nat \<bar>?limit\<bar>) (drop (nat ?skipped) ?s)),
       lr_currentPage = (case q_page q of None \<Rightarrow> 1 | Some n \<Rightarrow> n),
       lr_totalPages =
         (if ?limit = 0 then None else Some \<lceil>real (length ?m) / real_of_int ?limit\<rceil>),
       lr_totalItems = length ?m,
       lr_itemsPerPage = ?limit\<rparr>"
    by (simp only: sum.inject)
  then have r: "lr_orders r = (if ?limit = 0 then drop (nat ?skipped) ?s
                         else take (nat \<bar>?limit\<bar>) (drop (nat ?skipped) ?s))"
    "lr_totalItems r = length ?m"
    by (simp_all only: listResult.simps)
  from r(1) page_subset[of "?limit = 0" "nat ?skipped" ?s "nat \<bar>?limit\<bar>"]
  have "set (lr_orders r) \<subseteq> set ?s" by (simp only:)
  then have "set (lr_orders r) \<subseteq> set ?m" by (simp only: set_sort_orders)
  with r(2) show ?thesis by simp
qed

text \<open>
  C10. For a caller who is not an admin, reading the order of another user by its id is
  answered exactly as reading an order that does not exist (\<open>404 'Order not found'\<close>);
  an order that is returned is the caller's; and whatever the status, payment status,
  date, sort and pagination parameters of a list request are, every listed order is an
  order of the collection whose customer is the caller, and the reported total counts
  only such orders.
\<close>

theorem reads_scoped_to_caller:
  assumes "u_role c \<noteq> Admin"
  shows "(distinct (map o_id (orders d)) \<and> find (\<lambda>x. o_id x = i) (orders d) = Some ord \<and>
      o_customer ord \<noteq> u_id c \<and> j \<notin> o_id ` set (orders d) \<longrightarrow>
        get_order c i d = Inl OrderNotFound \<and> get_order c j d = Inl OrderNotFound) \<and>
     (\<forall>k x. get_order c k d = Inr x \<longrightarrow>
        x \<in> set (orders d) \<and> o_id x = k \<and> o_customer x = u_id c) \<and>
     (\<forall>q r. list_orders c q d = Inr r \<longrightarrow>
        (\<forall>x\<in>set (lr_orders r). x \<in> set (orders d) \<and> o_customer x = u_id c) \<and>
        lr_totalItems r =
          length (filter (\<lambda>x. o_customer x = u_id c \<and> list_filter c q x) (orders d)))"
proof -
  have none: "get_order c k d = Inl OrderNotFound"
    if "\<forall>x\<in>set (orders d). o_id x = k \<longrightarrow> o_customer x \<noteq> u_id c" for k
  proof -
    have "find (get_query c k) (orders d) = None"
      by (rule find_None_I) (use that assms in \<open>auto simp: get_query_def\<close>)
    then show ?thesis by (simp add: get_order_def)
  qed
  have other: "get_order c i d = Inl OrderNotFound \<and> get_order c j d = Inl OrderNotFound"
    if h: "distinct (map o_id (orders d)) \<and> find (\<lambda>x. o_id x = i) (orders d) = Some ord \<and>
      o_customer ord \<noteq> u_id c \<and> j \<notin> o_id ` set (orders d)"
  proof -
    have "\<forall>x\<in>set (orders d). o_id x = i \<longrightarrow> o_customer x \<noteq> u_id c"
      using h only_doc_with_id[of o_id "orders d" i ord] by blast
    moreover have "\<forall>x\<in>set (orders d). o_id x = j \<longrightarrow> o_customer x \<noteq> u_id c"
      using h by auto
    ultimately show ?thesis using none by blast
  qed
  have one: "x \<in> set (orders d) \<and> o_id x = k \<and> o_customer x = u_id c"
    if "get_order c k d = Inr x" for k x
  proof -
    from that have "find (get_query c k) (orders d) = Some x"
      by (simp add: get_order_def split: option.splits)
    then have "x \<in> set (orders d)" "get_query c k x" by (auto simp: find_Some_iff)
    with assms show ?thesis by (simp add: get_query_def)
  qed
  have own: "list_filter c q x \<Longrightarrow> o_customer x = u_id c" for q x
    using assms by (simp add: list_filter_def)
  have many: "(\<forall>x\<in>set (lr_orders r). x \<in> set (orders d) \<and> o_customer x = u_id c) \<and>
        lr_totalItems r =
          length (filter (\<lambda>x. o_customer x = u_id c \<and> list_filter c q x) (orders d))"
    if "list_orders c q d = Inr r" for q r
  proof -
    from list_orders_Inr[OF that] have
      sub: "set (lr_orders r) \<subseteq> set (filter (list_filter c q) (orders d))"
      and tot: "lr_totalItems r = length (filter (list_filter c q) (orders d))" by simp_all
    have "filter (list_filter c q) (orders d) =
        filter (\<lambda>x. o_customer x = u_id c \<and> list_filter c q x) (orders d)"
      by (rule filter_cong[OF refl]) (use own in blast)
    with sub tot own show ?thesis by auto
  qed
  from other one many show ?thesis by blast
qed

theorem reads_scoped_to_caller_witness:
  "u_role bob \<noteq> Admin \<and> distinct (map o_id (orders db2)) \<and>
   find (\<lambda>x. o_id x = ''o1'') (orders db2) = Some order1 \<and> o_customer order1 \<noteq> u_id bob \<and>
   ''o3'' \<notin> o_id ` set (orders db2) \<and>
   get_order bob ''o1'' db2 = Inl OrderNotFound \<and>
   get_order bob ''o3'' db2 = Inl OrderNotFound \<and>
   get_order bob ''o2'' db2 = Inr order2 \<and> o_customer order2 = u_id bob \<and>
   list_orders bob all_orders db2 =
     Inr \<lparr>lr_orders = [order2], lr_currentPage = 1, lr_totalPages = Some 1,
          lr_totalItems = 1, lr_itemsPerPage = 10\<rparr> \<and>
   list_orders carol all_orders db2 =
     Inr \<lparr>lr_orders = [order2, order1], lr_currentPage = 1, lr_totalPages = Some 1,
          lr_totalItems = 2, lr_itemsPerPage = 10\<rparr>"
proof -
  have b: "u_role bob \<noteq> Admin" by (simp add: bob_def)
  have h: "distinct (map o_id (orders db2))"
    "find (\<lambda>x. o_id x = ''o1'') (orders db2) = Some order1" "o_customer order1 \<noteq> u_id bob"
    "''o3'' \<notin> o_id ` set (orders db2)"
    by (simp_all add: db2_def order2_def order_docs bob_def)
  have g: "get_order bob ''o2'' db2 = Inr order2" "o_customer order2 = u_id bob"
    by (simp_all add: get_order_def get_query_def db2_def order2_def order_docs bob_def)
  have l: "list_orders bob all_orders db2 =
     Inr \<lparr>lr_orders = [order2], lr_currentPage = 1, lr_totalPages = Some 1,
          lr_totalItems = 1, lr_itemsPerPage = 10\<rparr>"
    "list_orders carol all_orders db2 =
     Inr \<lparr>lr_orders = [order2, order1], lr_currentPage = 1, lr_totalPages = Some 1,
          lr_totalItems = 2, lr_itemsPerPage = 10\<rparr>"
    by (simp_all add: list_orders_def list_filter_def all_orders_def sort_orders_def
        sort_value_def db2_def order2_def order_docs bob_def carol_def ceiling_eq_iff)
  from reads_scoped_to_caller[OF b, of db2 "''o1''" order1 "''o3''"] h b g l
  show ?thesis by simp
qed

end
